theory Spec2Isabelle
  imports Main
begin

section \<open>Exceptions, log records and hypervisor calls\<close>

text \<open>
  Python exceptions are values. \<open>LibvirtError\<close> is \<open>libvirt.libvirtError\<close>, the only
  exception class that \<open>RunningStateHandler.handle\<close> catches. \<open>KeyError\<close> carries the
  missing dictionary key, \<open>AttributeError\<close> the attribute name. \<open>OverflowError\<close> is what
  the division of an integer raises when the quotient is too large for a float.
\<close>

datatype error =
    AttributeError string
  | KeyError int
  | LibvirtError string
  | ValueError string
  | OverflowError

text \<open>\<open>isinstance(e, libvirtError)\<close>, the test of the \<open>except\<close> clause.\<close>

fun is_libvirtError :: "error \<Rightarrow> bool" where
  "is_libvirtError (LibvirtError m) = True"
| "is_libvirtError e = False"

datatype level = DEBUG | INFO | WARNING | ERROR | CRITICAL

text \<open>
  The six subclasses of \<open>StateHandler\<close>, in the order of their class statements. The base
  class itself is never entered in the registry, so no instance of it is ever created.
\<close>

datatype handler_class =
    RunningStateHandler
  | NoStateStateHandler
  | PausedStateHandler
  | ShutdownStateHandler
  | ShutoffStateHandler
  | PmSuspendedStateHandler

text \<open>
  Everything the program does to the outside world, in order: calls on the libvirt
  connection and domain, calls on a class's logger, and \<open>sleep\<close>. A \<open>Log\<close> event is the
  logging call itself (logger of the class, level, format string). The values of the
  arguments are not recorded; their evaluation, which comes before the call and can
  raise, is part of the handler that makes the call.
  \<open>logger.exception\<close> logs at level \<open>ERROR\<close>.
\<close>

datatype event =
    Log handler_class level string
  | OpenCall string
  | LookupByName string
  | SetMemoryStatsPeriod int
  | StateCall
  | MemoryStatsCall
  | SetMemory int
  | Sleep int
  | Close

fun is_SetMemory :: "event \<Rightarrow> bool" where
  "is_SetMemory (SetMemory m) = True"
| "is_SetMemory e = False"

section \<open>libvirt's domain states\<close>

text \<open>
  The constants of libvirt's \<open>virDomainState\<close> enumeration with the values of its public
  header; the source names the constants, and \<open>dom.state()[0]\<close> is one of these
  integers.
\<close>

definition VIR_DOMAIN_NOSTATE :: int where "VIR_DOMAIN_NOSTATE = 0"
definition VIR_DOMAIN_RUNNING :: int where "VIR_DOMAIN_RUNNING = 1"
definition VIR_DOMAIN_BLOCKED :: int where "VIR_DOMAIN_BLOCKED = 2"
definition VIR_DOMAIN_PAUSED :: int where "VIR_DOMAIN_PAUSED = 3"
definition VIR_DOMAIN_SHUTDOWN :: int where "VIR_DOMAIN_SHUTDOWN = 4"
definition VIR_DOMAIN_SHUTOFF :: int where "VIR_DOMAIN_SHUTOFF = 5"
definition VIR_DOMAIN_CRASHED :: int where "VIR_DOMAIN_CRASHED = 6"
definition VIR_DOMAIN_PMSUSPENDED :: int where "VIR_DOMAIN_PMSUSPENDED = 7"

section \<open>MemoryStats\<close>

definition attr_names :: "string set" where
  "attr_names =
     {''actual'', ''swap_in'', ''swap_out'', ''major_fault'', ''minor_fault'', ''unused'',
      ''available'', ''usable'', ''last_update'', ''disk_caches'', ''hugetlb_pgalloc'',
      ''hugetlb_pgfail'', ''rss''}"

text \<open>
  A \<open>MemoryStats\<close> object holds one slot, the dictionary it was built from.
  \<open>__getattribute__\<close>: a name of \<open>_attr_names\<close> is looked up with \<open>dict.get(name, 0)\<close>,
  any other name raises \<open>AttributeError\<close>.
\<close>

type_synonym MemoryStats = "string \<rightharpoonup> int"

definition dict_get :: "('k \<rightharpoonup> 'v) \<Rightarrow> 'k \<Rightarrow> 'v \<Rightarrow> 'v" where
  "dict_get d k dflt = (case d k of None \<Rightarrow> dflt | Some v \<Rightarrow> v)"

definition MemoryStats_getattribute :: "MemoryStats \<Rightarrow> string \<Rightarrow> error + int" where
  "MemoryStats_getattribute memoryStats name =
     (if name \<in> attr_names
      then Inr (dict_get memoryStats name 0)
      else Inl (AttributeError name))"

section \<open>Command-line arguments\<close>

text \<open>
  The namespace that \<open>argparse\<close> returns. The field \<open>min\<close> of the source is \<open>min_kb\<close>
  here, since \<open>min\<close> is a constant of HOL. All sizes are Python integers, in KB.
\<close>

record args =
  connect :: string
  min_kb :: int
  free :: int
  minThreshold :: int
  maxThreshold :: int
  period :: int
  vmname :: string

text \<open>
  The defaults of the argument parser: \<open>GB(2)\<close>, \<open>GB(1)\<close>, \<open>MB(100)\<close> and \<open>MB(200)\<close> in KB,
  a period of 5 seconds; the name of the domain has no default.
\<close>

definition default_args :: "string \<Rightarrow> args" where
  "default_args name =
     \<lparr>connect = ''qemu:///session'', min_kb = 2 * 1024 * 1024, free = 1 * 1024 * 1024,
      minThreshold = 100 * 1024, maxThreshold = 200 * 1024, period = 5, vmname = name\<rparr>"

section \<open>The domain as one tick sees it\<close>

text \<open>
  What the hypervisor answers to the calls of one iteration of the loop: \<open>dom.state()[0]\<close>,
  \<open>dom.memoryStats()\<close> and \<open>dom.setMemory(mem)\<close>. Each is called at most once in an
  iteration, and each either returns or raises.
\<close>

record virDomain =
  state_result :: "error + int"
  memoryStats_result :: "error + MemoryStats"
  setMemory_result :: "int \<Rightarrow> error + unit"

section \<open>StateHandler: registry, instances and construction\<close>

text \<open>
  \<open>_registry\<close> after the six class statements have run: \<open>__init_subclass__\<close> stores each
  class under the \<open>state\<close> keyword of its class statement.
\<close>

definition registry :: "int \<rightharpoonup> handler_class" where
  "registry =
     [VIR_DOMAIN_RUNNING \<mapsto> RunningStateHandler,
      VIR_DOMAIN_BLOCKED \<mapsto> NoStateStateHandler,
      VIR_DOMAIN_PAUSED \<mapsto> PausedStateHandler,
      VIR_DOMAIN_SHUTDOWN \<mapsto> ShutdownStateHandler,
      VIR_DOMAIN_SHUTOFF \<mapsto> ShutoffStateHandler,
      VIR_DOMAIN_PMSUSPENDED \<mapsto> PmSuspendedStateHandler]"

text \<open>
  An instance: its class and the two slots \<open>_state\<close> and \<open>_args\<close>, unset (\<open>None\<close>) until
  \<open>__init__\<close> has run.
\<close>

record handler =
  cls :: handler_class
  slot_state :: "int option"
  slot_args :: "args option"

text \<open>
  Instances live in a heap and are known by their address (the index in the heap), so
  that "the same instance" means the same address. \<open>handlers\<close> is the class-level
  dictionary \<open>_handlers\<close>, from state to instance.
\<close>

record store =
  handlers :: "int \<rightharpoonup> nat"
  heap :: "handler list"

definition init_store :: store where
  "init_store = \<lparr>handlers = Map.empty, heap = []\<rparr>"

text \<open>
  \<open>__new__\<close>: look the class up (a missing key raises \<open>KeyError\<close>), return the cached
  instance of the state if there is one, otherwise allocate one and cache it.
\<close>

definition StateHandler_new :: "int \<Rightarrow> store \<Rightarrow> error + (nat \<times> store)" where
  "StateHandler_new state s =
     (case registry state of
        None \<Rightarrow> Inl (KeyError state)
      | Some c \<Rightarrow>
          (case handlers s state of
             Some a \<Rightarrow> Inr (a, s)
           | None \<Rightarrow>
               (let a = length (heap s)
                in Inr (a, s\<lparr>heap := heap s @ [\<lparr>cls = c, slot_state = None, slot_args = None\<rparr>],
                              handlers := (handlers s)(state \<mapsto> a)\<rparr>))))"

text \<open>\<open>__init__\<close> assigns both slots of the instance at address \<open>a\<close>.\<close>

definition StateHandler_init :: "nat \<Rightarrow> int \<Rightarrow> args \<Rightarrow> store \<Rightarrow> store" where
  "StateHandler_init a state ar s =
     s\<lparr>heap := (heap s)[a := (heap s ! a)\<lparr>slot_state := Some state, slot_args := Some ar\<rparr>]\<rparr>"

text \<open>
  The call \<open>StateHandler(state, args)\<close>: \<open>__new__\<close>, then \<open>__init__\<close> on what it returned
  (always an instance of a subclass of \<open>StateHandler\<close>, so Python runs \<open>__init__\<close>).
\<close>

definition StateHandler_call :: "int \<Rightarrow> args \<Rightarrow> store \<Rightarrow> error + (nat \<times> store)" where
  "StateHandler_call state ar s =
     (case StateHandler_new state s of
        Inl e \<Rightarrow> Inl e
      | Inr (a, s') \<Rightarrow> Inr (a, StateHandler_init a state ar s'))"

section \<open>The handlers\<close>

text \<open>
  Lines 86 to 89 of \<open>RunningStateHandler.handle\<close>: the previous size, the new size
  clamped from below, and their difference.
\<close>

definition RunningStateHandler_compute :: "args \<Rightarrow> MemoryStats \<Rightarrow> error + (int \<times> int \<times> int)" where
  "RunningStateHandler_compute ar memStats =
     (case MemoryStats_getattribute memStats ''actual'' of Inl e \<Rightarrow> Inl e | Inr prevMem \<Rightarrow>
     (case MemoryStats_getattribute memStats ''actual'' of Inl e \<Rightarrow> Inl e | Inr actual \<Rightarrow>
     (case MemoryStats_getattribute memStats ''usable'' of Inl e \<Rightarrow> Inl e | Inr usable \<Rightarrow>
        (let mem = actual - usable + free ar;
             mem = (if mem > min_kb ar then mem else min_kb ar);
             delta = prevMem - mem
         in Inr (prevMem, mem, delta)))))"

text \<open>
  \<open>x/1024\<close> on a Python integer is true division: the quotient is rounded to the nearest
  float, and \<open>OverflowError\<close> is raised when that is beyond the largest float
  \<open>2^1024 - 2^971\<close>, which is from \<open>2^1034 - 2^980\<close> upward in magnitude. The quotient is
  used in the log line only, so the model keeps no more of it than whether it exists.
\<close>

definition truediv_1024 :: "int \<Rightarrow> error + unit" where
  "truediv_1024 x = (if \<bar>x\<bar> < 2 ^ 1034 - 2 ^ 980 then Inr () else Inl OverflowError)"

text \<open>
  The arguments of \<open>logger.debug\<close> (line 91), evaluated from left to right before the
  call: \<open>memStats.actual/1024\<close>, \<open>memStats.usable/1024\<close> and \<open>delta/1024\<close>.
\<close>

definition debug_args :: "MemoryStats \<Rightarrow> int \<Rightarrow> error + unit" where
  "debug_args memStats delta =
     (case MemoryStats_getattribute memStats ''actual'' of Inl e \<Rightarrow> Inl e | Inr actual \<Rightarrow>
     (case truediv_1024 actual of Inl e \<Rightarrow> Inl e | Inr _ \<Rightarrow>
     (case MemoryStats_getattribute memStats ''usable'' of Inl e \<Rightarrow> Inl e | Inr usable \<Rightarrow>
     (case truediv_1024 usable of Inl e \<Rightarrow> Inl e | Inr _ \<Rightarrow>
        truediv_1024 delta))))"

text \<open>The arguments of \<open>logger.info\<close> (line 94): \<open>mem/1024\<close> and \<open>delta/1024\<close>.\<close>

definition info_args :: "int \<Rightarrow> int \<Rightarrow> error + unit" where
  "info_args mem delta =
     (case truediv_1024 mem of Inl e \<Rightarrow> Inl e | Inr _ \<Rightarrow> truediv_1024 delta)"

text \<open>The format string of line 90; \<open>CHR 0x09\<close> is the tab character.\<close>

definition debug_format :: string where
  "debug_format =
     ''actual = %.2fMB,'' @ [CHR 0x09] @ ''usable = %.2fMB,'' @ [CHR 0x09] @ ''delta = %+.2fMB''"

text \<open>
  The body of the \<open>try\<close> statement, with the events it causes up to the point where it
  ends or raises.
\<close>

definition RunningStateHandler_try :: "handler \<Rightarrow> virDomain \<Rightarrow> event list \<times> (error + unit)" where
  "RunningStateHandler_try self vdom =
     (case slot_args self of
        None \<Rightarrow> ([], Inl (AttributeError ''_args''))
      | Some ar \<Rightarrow>
          (case memoryStats_result vdom of
             Inl e \<Rightarrow> ([MemoryStatsCall], Inl e)
           | Inr memStats \<Rightarrow>
               (case RunningStateHandler_compute ar memStats of
                  Inl e \<Rightarrow> ([MemoryStatsCall], Inl e)
                | Inr (prevMem, mem, delta) \<Rightarrow>
                    (case debug_args memStats delta of
                       Inl e \<Rightarrow> ([MemoryStatsCall], Inl e)
                     | Inr _ \<Rightarrow>
                         (let evs = [MemoryStatsCall, Log RunningStateHandler DEBUG debug_format]
                          in if delta < - minThreshold ar \<or> delta > maxThreshold ar
                             then (case info_args mem delta of
                                     Inl e \<Rightarrow> (evs, Inl e)
                                   | Inr _ \<Rightarrow>
                                       (evs @ [Log RunningStateHandler INFO
                                                 ''memory resized to %.2f (%+.2fMB)'',
                                               SetMemory mem],
                                        setMemory_result vdom mem))
                             else (evs, Inr ()))))))"

text \<open>
  \<open>except libvirtError\<close> logs the exception and falls through to \<open>return 0\<close>; any other
  exception leaves the method.
\<close>

definition RunningStateHandler_handle :: "handler \<Rightarrow> virDomain \<Rightarrow> event list \<times> (error + int)" where
  "RunningStateHandler_handle self vdom =
     (case RunningStateHandler_try self vdom of
        (evs, Inr _) \<Rightarrow> (evs, Inr 0)
      | (evs, Inl e) \<Rightarrow>
          if is_libvirtError e
          then (evs @ [Log RunningStateHandler ERROR ''failed to resize memory''], Inr 0)
          else (evs, Inl e))"

definition NoStateStateHandler_handle :: "handler \<Rightarrow> virDomain \<Rightarrow> event list \<times> (error + int)" where
  "NoStateStateHandler_handle self vdom = ([Log NoStateStateHandler DEBUG ''VIR_DOMAIN_NOSTATE''], Inr 0)"

definition PausedStateHandler_handle :: "handler \<Rightarrow> virDomain \<Rightarrow> event list \<times> (error + int)" where
  "PausedStateHandler_handle self vdom = ([Log PausedStateHandler DEBUG ''VIR_DOMAIN_PAUSED''], Inr 0)"

definition ShutdownStateHandler_handle :: "handler \<Rightarrow> virDomain \<Rightarrow> event list \<times> (error + int)" where
  "ShutdownStateHandler_handle self vdom = ([Log ShutdownStateHandler DEBUG ''VIR_DOMAIN_SHUTDOWN''], Inr 1)"

definition ShutoffStateHandler_handle :: "handler \<Rightarrow> virDomain \<Rightarrow> event list \<times> (error + int)" where
  "ShutoffStateHandler_handle self vdom = ([Log ShutoffStateHandler DEBUG ''VIR_DOMAIN_SHUTOFF''], Inr 1)"

definition PmSuspendedStateHandler_handle :: "handler \<Rightarrow> virDomain \<Rightarrow> event list \<times> (error + int)" where
  "PmSuspendedStateHandler_handle self vdom =
     ([Log PmSuspendedStateHandler DEBUG ''VIR_DOMAIN_PMSUSPENDED''], Inr 0)"

text \<open>The method call \<open>self.handle(dom)\<close> resolves by the class of the instance.\<close>

definition handle :: "handler \<Rightarrow> virDomain \<Rightarrow> event list \<times> (error + int)" where
  "handle self vdom =
     (case cls self of
        RunningStateHandler \<Rightarrow> RunningStateHandler_handle self vdom
      | NoStateStateHandler \<Rightarrow> NoStateStateHandler_handle self vdom
      | PausedStateHandler \<Rightarrow> PausedStateHandler_handle self vdom
      | ShutdownStateHandler \<Rightarrow> ShutdownStateHandler_handle self vdom
      | ShutoffStateHandler \<Rightarrow> ShutoffStateHandler_handle self vdom
      | PmSuspendedStateHandler \<Rightarrow> PmSuspendedStateHandler_handle self vdom)"

section \<open>main\<close>

text \<open>
  How a run ends: \<open>main\<close> returned a value, an exception left it, or the loop is still
  polling when the list of scripted ticks is used up.
\<close>

datatype outcome = Returned int | Raised error | Polling

text \<open>
  The \<open>while True\<close> loop. The hypervisor's answers are given tick by tick; every
  iteration uses up one tick, and the loop on an empty list is still polling. A truthy
  result of \<open>handle\<close> returns 0; otherwise \<open>sleep(args.period)\<close>, which raises
  \<open>ValueError\<close> on a negative length.
\<close>

fun main_loop :: "args \<Rightarrow> virDomain list \<Rightarrow> store \<Rightarrow> event list \<times> outcome" where
  "main_loop ar [] s = ([], Polling)"
| "main_loop ar (vdom # rest) s =
     (case state_result vdom of
        Inl e \<Rightarrow> ([StateCall], Raised e)
      | Inr st \<Rightarrow>
          (case StateHandler_call st ar s of
             Inl e \<Rightarrow> ([StateCall], Raised e)
           | Inr (a, s') \<Rightarrow>
               (case handle (heap s' ! a) vdom of
                  (evs, Inl e) \<Rightarrow> (StateCall # evs, Raised e)
                | (evs, Inr r) \<Rightarrow>
                    if r \<noteq> 0 then (StateCall # evs, Returned 0)
                    else if period ar < 0
                    then (StateCall # evs, Raised (ValueError ''sleep length must be non-negative''))
                    else (case main_loop ar rest s' of
                            (evs', out) \<Rightarrow> (StateCall # evs @ Sleep (period ar) # evs', out)))))"

text \<open>
  The answers of the hypervisor for a whole run: opening the connection, looking the
  domain up, setting the statistics period, and then the ticks.
\<close>

record libvirt_env =
  open_result :: "error + unit"
  lookupByName_result :: "error + unit"
  setMemoryStatsPeriod_result :: "error + unit"
  ticks :: "virDomain list"

text \<open>
  \<open>main\<close>. The \<open>with\<close> statement closes the connection on every way out of its body. The
  handler cache is the class-level dictionary, empty when the process starts.
\<close>

definition main :: "args \<Rightarrow> libvirt_env \<Rightarrow> event list \<times> outcome" where
  "main ar env =
     (if period ar = 0 then ([], Returned 0)
      else
        (case open_result env of
           Inl e \<Rightarrow> ([OpenCall (connect ar)], Raised e)
         | Inr _ \<Rightarrow>
             (case lookupByName_result env of
                Inl e \<Rightarrow> ([OpenCall (connect ar), LookupByName (vmname ar), Close], Raised e)
              | Inr _ \<Rightarrow>
                  (case setMemoryStatsPeriod_result env of
                     Inl e \<Rightarrow>
                       ([OpenCall (connect ar), LookupByName (vmname ar),
                         SetMemoryStatsPeriod (period ar), Close], Raised e)
                   | Inr _ \<Rightarrow>
                       (case main_loop ar (ticks env) init_store of
                          (evs, out) \<Rightarrow>
                            ([OpenCall (connect ar), LookupByName (vmname ar),
                              SetMemoryStatsPeriod (period ar)] @ evs @
                             (if out = Polling then [] else [Close]), out))))))"

text \<open>
  \<open>exit(main(args))\<close>: the status of the process. An exception that leaves \<open>main\<close> ends
  the interpreter with status 1; a run that is still polling has no status yet.
\<close>

definition exit_status :: "outcome \<Rightarrow> int option" where
  "exit_status out =
     (case out of Returned n \<Rightarrow> Some (n mod 256) | Raised e \<Rightarrow> Some 1 | Polling \<Rightarrow> None)"

section \<open>Vocabulary of the properties\<close>

text \<open>
  A store is well formed when every cached address is in the heap and the object there
  has the class registered for its state. The empty store is, and construction keeps it
  so.
\<close>

definition wf_store :: "store \<Rightarrow> bool" where
  "wf_store s =
     (\<forall>st a. handlers s st = Some a \<longrightarrow>
        a < length (heap s) \<and> registry st = Some (cls (heap s ! a)))"

text \<open>
  A run of constructor calls \<open>StateHandler(state, args)\<close>, one after the other; a call
  that raises has not touched the store.
\<close>

fun dispatch_all :: "(int \<times> args) list \<Rightarrow> store \<Rightarrow> store" where
  "dispatch_all [] s = s"
| "dispatch_all ((st, ar) # calls) s =
     (case StateHandler_call st ar s of
        Inl e \<Rightarrow> dispatch_all calls s
      | Inr (a, s') \<Rightarrow> dispatch_all calls s')"

text \<open>
  The hypervisor raises nothing but \<open>libvirtError\<close> from the two calls of a Running tick.
\<close>

definition libvirt_errors_only :: "virDomain \<Rightarrow> bool" where
  "libvirt_errors_only vdom =
     ((\<forall>e. memoryStats_result vdom = Inl e \<longrightarrow> is_libvirtError e) \<and>
      (\<forall>m e. setMemory_result vdom m = Inl e \<longrightarrow> is_libvirtError e))"

text \<open>
  A figure that a float can show in MB: its magnitude in KB is below \<open>2^1034 - 2^980\<close>.
  The figures of a Running tick are the four that the log lines show: the current size, the
  usable memory, the new size and delta.
\<close>

definition fits_float :: "int \<Rightarrow> bool" where
  "fits_float x = (\<bar>x\<bar> < 2 ^ 1034 - 2 ^ 980)"

definition figures_fit :: "args \<Rightarrow> MemoryStats \<Rightarrow> bool" where
  "figures_fit ar memStats =
     (case RunningStateHandler_compute ar memStats of
        Inl e \<Rightarrow> False
      | Inr (prevMem, mem, delta) \<Rightarrow>
          fits_float (dict_get memStats ''actual'' 0) \<and>
          fits_float (dict_get memStats ''usable'' 0) \<and>
          fits_float delta \<and> fits_float mem)"

text \<open>
  A Running tick that raises nothing past the handler: the hypervisor raises nothing
  but \<open>libvirtError\<close>, and the figures of the statistics it returns fit.
\<close>

definition running_tick_ok :: "args \<Rightarrow> virDomain \<Rightarrow> bool" where
  "running_tick_ok ar vdom =
     (libvirt_errors_only vdom \<and>
      (case memoryStats_result vdom of
         Inl e \<Rightarrow> True
       | Inr memStats \<Rightarrow> figures_fit ar memStats))"

text \<open>
  A tick on which the loop keeps polling: the domain reports a state whose handler
  returns 0, and if that is the Running handler, nothing is raised past it.
\<close>

definition polling_tick :: "args \<Rightarrow> virDomain \<Rightarrow> bool" where
  "polling_tick ar vdom =
     (\<exists>st. state_result vdom = Inr st \<and>
        st \<in> {VIR_DOMAIN_RUNNING, VIR_DOMAIN_BLOCKED, VIR_DOMAIN_PAUSED, VIR_DOMAIN_PMSUSPENDED} \<and>
        (st = VIR_DOMAIN_RUNNING \<longrightarrow> running_tick_ok ar vdom))"

text \<open>
  The resize computation in the words of the specification: the target is
  \<open>actual - usable + freeMarginKB\<close>, raised to \<open>minMemoryKB\<close> when below; delta is actual
  minus target.
\<close>

definition spec_target :: "int \<Rightarrow> int \<Rightarrow> int \<Rightarrow> int \<Rightarrow> int" where
  "spec_target actual usable freeMarginKB minMemoryKB = max (actual - usable + freeMarginKB) minMemoryKB"

definition spec_delta :: "int \<Rightarrow> int \<Rightarrow> int" where
  "spec_delta actual target = actual - target"

section \<open>Construction keeps the store well formed\<close>

lemmas VIR_DOMAIN_defs =
  VIR_DOMAIN_NOSTATE_def VIR_DOMAIN_RUNNING_def VIR_DOMAIN_BLOCKED_def
  VIR_DOMAIN_PAUSED_def VIR_DOMAIN_SHUTDOWN_def VIR_DOMAIN_SHUTOFF_def
  VIR_DOMAIN_CRASHED_def VIR_DOMAIN_PMSUSPENDED_def


lemma wf_init_store: "wf_store init_store"
  by (simp add: wf_store_def init_store_def)

lemma wf_storeD:
  "wf_store s \<Longrightarrow> handlers s st = Some a \<Longrightarrow>
     a < length (heap s) \<and> registry st = Some (cls (heap s ! a))"
  by (simp add: wf_store_def)

lemma StateHandler_call_cached:
  assumes "registry st = Some c" and "handlers s st = Some a"
  shows "StateHandler_call st ar s = Inr (a, StateHandler_init a st ar s)"
  using assms by (simp add: StateHandler_call_def StateHandler_new_def)

lemma StateHandler_call_fresh:
  assumes "registry st = Some c" and "handlers s st = None"
  shows "StateHandler_call st ar s =
           Inr (length (heap s),
                \<lparr>handlers = (handlers s)(st \<mapsto> length (heap s)),
                 heap = heap s @ [\<lparr>cls = c, slot_state = Some st, slot_args = Some ar\<rparr>]\<rparr>)"
  using assms by (simp add: StateHandler_call_def StateHandler_new_def StateHandler_init_def Let_def)

lemma StateHandler_call_unregistered:
  "registry st = None \<Longrightarrow> StateHandler_call st ar s = Inl (KeyError st)"
  by (simp add: StateHandler_call_def StateHandler_new_def)

lemma StateHandler_call_object:
  assumes "wf_store s" and "registry st = Some c"
  shows "\<exists>a s'. StateHandler_call st ar s = Inr (a, s') \<and> wf_store s' \<and> a < length (heap s') \<and>
           handlers s' st = Some a \<and>
           heap s' ! a = \<lparr>cls = c, slot_state = Some st, slot_args = Some ar\<rparr>"
proof (cases "handlers s st")
  case None
  have "wf_store \<lparr>handlers = (handlers s)(st \<mapsto> length (heap s)),
                 heap = heap s @ [\<lparr>cls = c, slot_state = Some st, slot_args = Some ar\<rparr>]\<rparr>"
    unfolding wf_store_def
  proof (intro allI impI)
    fix st' a
    assume h: "handlers \<lparr>handlers = (handlers s)(st \<mapsto> length (heap s)),
                 heap = heap s @ [\<lparr>cls = c, slot_state = Some st, slot_args = Some ar\<rparr>]\<rparr> st' = Some a"
    show "a < length (heap \<lparr>handlers = (handlers s)(st \<mapsto> length (heap s)),
                 heap = heap s @ [\<lparr>cls = c, slot_state = Some st, slot_args = Some ar\<rparr>]\<rparr>) \<and>
          registry st' = Some (cls (heap \<lparr>handlers = (handlers s)(st \<mapsto> length (heap s)),
                 heap = heap s @ [\<lparr>cls = c, slot_state = Some st, slot_args = Some ar\<rparr>]\<rparr> ! a))"
    proof (cases "st' = st")
      case True
      with h assms(2) show ?thesis by auto
    next
      case False
      with h have "handlers s st' = Some a" by simp
      from wf_storeD [OF assms(1) this] show ?thesis by (simp add: nth_append)
    qed
  qed
  with None assms(2) show ?thesis
    by (simp add: StateHandler_call_fresh)
next
  case (Some a)
  with assms have a: "a < length (heap s)" and c: "cls (heap s ! a) = c"
    by (auto simp: wf_store_def)
  have "wf_store (StateHandler_init a st ar s)"
    unfolding wf_store_def
  proof (intro allI impI)
    fix st' b
    assume "handlers (StateHandler_init a st ar s) st' = Some b"
    then have "handlers s st' = Some b" by (simp add: StateHandler_init_def)
    from wf_storeD [OF assms(1) this]
    show "b < length (heap (StateHandler_init a st ar s)) \<and>
          registry st' = Some (cls (heap (StateHandler_init a st ar s) ! b))"
      by (cases "a = b") (simp_all add: StateHandler_init_def)
  qed
  moreover have "heap (StateHandler_init a st ar s) ! a = \<lparr>cls = c, slot_state = Some st, slot_args = Some ar\<rparr>"
    using a c by (simp add: StateHandler_init_def)
  ultimately show ?thesis
    using Some assms(2) a by (simp add: StateHandler_call_cached StateHandler_init_def)
qed

lemma registry_simps:
  "registry VIR_DOMAIN_NOSTATE = None"
  "registry VIR_DOMAIN_RUNNING = Some RunningStateHandler"
  "registry VIR_DOMAIN_BLOCKED = Some NoStateStateHandler"
  "registry VIR_DOMAIN_PAUSED = Some PausedStateHandler"
  "registry VIR_DOMAIN_SHUTDOWN = Some ShutdownStateHandler"
  "registry VIR_DOMAIN_SHUTOFF = Some ShutoffStateHandler"
  "registry VIR_DOMAIN_CRASHED = None"
  "registry VIR_DOMAIN_PMSUSPENDED = Some PmSuspendedStateHandler"
  by (simp_all add: registry_def VIR_DOMAIN_defs)

lemma getattribute_actual:
  "MemoryStats_getattribute memStats ''actual'' = Inr (dict_get memStats ''actual'' 0)"
  by (simp add: MemoryStats_getattribute_def attr_names_def)

lemma getattribute_usable:
  "MemoryStats_getattribute memStats ''usable'' = Inr (dict_get memStats ''usable'' 0)"
  by (simp add: MemoryStats_getattribute_def attr_names_def)

lemma RunningStateHandler_compute_eq:
  "RunningStateHandler_compute ar memStats =
     Inr (dict_get memStats ''actual'' 0,
          max (dict_get memStats ''actual'' 0 - dict_get memStats ''usable'' 0 + free ar) (min_kb ar),
          dict_get memStats ''actual'' 0 -
            max (dict_get memStats ''actual'' 0 - dict_get memStats ''usable'' 0 + free ar) (min_kb ar))"
  by (simp add: RunningStateHandler_compute_def getattribute_actual getattribute_usable Let_def max_def)

lemma truediv_1024_eq:
  "truediv_1024 x = (if fits_float x then Inr () else Inl OverflowError)"
  by (simp add: truediv_1024_def fits_float_def)

lemma debug_args_eq:
  "debug_args memStats delta =
     (if fits_float (dict_get memStats ''actual'' 0) \<and>
         fits_float (dict_get memStats ''usable'' 0) \<and> fits_float delta
      then Inr () else Inl OverflowError)"
  by (simp add: debug_args_def getattribute_actual getattribute_usable truediv_1024_eq)

lemma info_args_eq:
  "info_args mem delta = (if fits_float mem \<and> fits_float delta then Inr () else Inl OverflowError)"
  by (simp add: info_args_def truediv_1024_eq)

lemma RunningStateHandler_try_stats_error:
  assumes "slot_args self = Some ar" and "memoryStats_result vdom = Inl e"
  shows "RunningStateHandler_try self vdom = ([MemoryStatsCall], Inl e)"
  using assms by (simp add: RunningStateHandler_try_def)

lemma RunningStateHandler_try_stats_ok:
  assumes "slot_args self = Some ar" and "memoryStats_result vdom = Inr memStats"
    and "RunningStateHandler_compute ar memStats = Inr (prevMem, mem, delta)"
  shows "RunningStateHandler_try self vdom =
           (if \<not> (fits_float (dict_get memStats ''actual'' 0) \<and>
                   fits_float (dict_get memStats ''usable'' 0) \<and> fits_float delta)
            then ([MemoryStatsCall], Inl OverflowError)
            else if delta < - minThreshold ar \<or> delta > maxThreshold ar
            then (if fits_float mem
                  then ([MemoryStatsCall, Log RunningStateHandler DEBUG debug_format,
                         Log RunningStateHandler INFO ''memory resized to %.2f (%+.2fMB)'',
                         SetMemory mem],
                        setMemory_result vdom mem)
                  else ([MemoryStatsCall, Log RunningStateHandler DEBUG debug_format],
                        Inl OverflowError))
            else ([MemoryStatsCall, Log RunningStateHandler DEBUG debug_format], Inr ()))"
  using assms by (simp add: RunningStateHandler_try_def debug_args_eq info_args_eq Let_def)

lemma RunningStateHandler_try_fit:
  assumes "slot_args self = Some ar" and "memoryStats_result vdom = Inr memStats"
    and "RunningStateHandler_compute ar memStats = Inr (prevMem, mem, delta)"
    and "figures_fit ar memStats"
  shows "RunningStateHandler_try self vdom =
           (if delta < - minThreshold ar \<or> delta > maxThreshold ar
            then ([MemoryStatsCall, Log RunningStateHandler DEBUG debug_format,
                   Log RunningStateHandler INFO ''memory resized to %.2f (%+.2fMB)'',
                   SetMemory mem],
                  setMemory_result vdom mem)
            else ([MemoryStatsCall, Log RunningStateHandler DEBUG debug_format], Inr ()))"
proof -
  from assms(3,4) have "fits_float (dict_get memStats ''actual'' 0)"
    and "fits_float (dict_get memStats ''usable'' 0)" and "fits_float delta" and "fits_float mem"
    by (simp_all add: figures_fit_def)
  with RunningStateHandler_try_stats_ok [OF assms(1-3)] show ?thesis by simp
qed

lemma RunningStateHandler_handle_continue:
  assumes "slot_args self = Some ar" and "running_tick_ok ar vdom"
  shows "snd (RunningStateHandler_handle self vdom) = Inr 0"
proof (cases "memoryStats_result vdom")
  case (Inl e)
  with assms(2) have "is_libvirtError e"
    by (simp add: running_tick_ok_def libvirt_errors_only_def)
  with RunningStateHandler_try_stats_error [OF assms(1) Inl] show ?thesis
    by (simp add: RunningStateHandler_handle_def)
next
  case (Inr memStats)
  with assms(2) have fit: "figures_fit ar memStats" and lv: "libvirt_errors_only vdom"
    by (simp_all add: running_tick_ok_def)
  obtain p m d where c: "RunningStateHandler_compute ar memStats = Inr (p, m, d)"
    by (simp add: RunningStateHandler_compute_eq)
  note t = RunningStateHandler_try_fit [OF assms(1) Inr c fit]
  show ?thesis
  proof (cases "d < - minThreshold ar \<or> d > maxThreshold ar")
    case False
    with t show ?thesis by (simp add: RunningStateHandler_handle_def)
  next
    case True
    show ?thesis
    proof (cases "setMemory_result vdom m")
      case (Inl e)
      with lv have "is_libvirtError e" by (auto simp: libvirt_errors_only_def)
      with t True Inl show ?thesis by (simp add: RunningStateHandler_handle_def)
    next
      case (Inr u)
      with t True show ?thesis by (simp add: RunningStateHandler_handle_def)
    qed
  qed
qed

lemma handle_Running:
  "handle \<lparr>cls = RunningStateHandler, slot_state = x, slot_args = y\<rparr> vdom =
     RunningStateHandler_handle \<lparr>cls = RunningStateHandler, slot_state = x, slot_args = y\<rparr> vdom"
  by (simp add: handle_def)

lemma handle_NoState:
  "handle \<lparr>cls = NoStateStateHandler, slot_state = x, slot_args = y\<rparr> vdom =
     ([Log NoStateStateHandler DEBUG ''VIR_DOMAIN_NOSTATE''], Inr 0)"
  by (simp add: handle_def NoStateStateHandler_handle_def)

lemma handle_Paused:
  "handle \<lparr>cls = PausedStateHandler, slot_state = x, slot_args = y\<rparr> vdom =
     ([Log PausedStateHandler DEBUG ''VIR_DOMAIN_PAUSED''], Inr 0)"
  by (simp add: handle_def PausedStateHandler_handle_def)

lemma handle_Shutdown:
  "handle \<lparr>cls = ShutdownStateHandler, slot_state = x, slot_args = y\<rparr> vdom =
     ([Log ShutdownStateHandler DEBUG ''VIR_DOMAIN_SHUTDOWN''], Inr 1)"
  by (simp add: handle_def ShutdownStateHandler_handle_def)

lemma handle_Shutoff:
  "handle \<lparr>cls = ShutoffStateHandler, slot_state = x, slot_args = y\<rparr> vdom =
     ([Log ShutoffStateHandler DEBUG ''VIR_DOMAIN_SHUTOFF''], Inr 1)"
  by (simp add: handle_def ShutoffStateHandler_handle_def)

lemma handle_PmSuspended:
  "handle \<lparr>cls = PmSuspendedStateHandler, slot_state = x, slot_args = y\<rparr> vdom =
     ([Log PmSuspendedStateHandler DEBUG ''VIR_DOMAIN_PMSUSPENDED''], Inr 0)"
  by (simp add: handle_def PmSuspendedStateHandler_handle_def)

lemma main_loop_step:
  assumes "state_result t = Inr st" and "StateHandler_call st ar s = Inr (a, s')"
    and "handle (heap s' ! a) t = (evs, Inr r)"
  shows "main_loop ar (t # rest) s =
           (if r \<noteq> 0 then (StateCall # evs, Returned 0)
            else if period ar < 0
            then (StateCall # evs, Raised (ValueError ''sleep length must be non-negative''))
            else (StateCall # evs @ Sleep (period ar) # fst (main_loop ar rest s'),
                  snd (main_loop ar rest s')))"
  using assms by (simp add: case_prod_unfold)

lemma main_loop_unregistered:
  assumes "state_result t = Inr st" and "registry st = None"
  shows "main_loop ar (t # rest) s = ([StateCall], Raised (KeyError st))"
  using assms by (simp add: StateHandler_call_unregistered)

lemma polling_tick_continues:
  assumes "wf_store s" and "polling_tick ar t"
  shows "\<exists>st a s' evs. state_result t = Inr st \<and> StateHandler_call st ar s = Inr (a, s') \<and>
           wf_store s' \<and> handle (heap s' ! a) t = (evs, Inr 0)"
proof -
  from assms(2) obtain st where st: "state_result t = Inr st"
    and mem: "st \<in> {VIR_DOMAIN_RUNNING, VIR_DOMAIN_BLOCKED, VIR_DOMAIN_PAUSED, VIR_DOMAIN_PMSUSPENDED}"
    and lv: "st = VIR_DOMAIN_RUNNING \<longrightarrow> running_tick_ok ar t"
    by (auto simp: polling_tick_def)
  from mem lv obtain c where c: "registry st = Some c"
    and cc: "c \<in> {NoStateStateHandler, PausedStateHandler, PmSuspendedStateHandler} \<or>
             c = RunningStateHandler \<and> running_tick_ok ar t"
    by (auto simp: registry_simps)
  from StateHandler_call_object [OF assms(1) c, of ar]
  obtain a s' where call: "StateHandler_call st ar s = Inr (a, s')" and wf: "wf_store s'"
    and obj: "heap s' ! a = \<lparr>cls = c, slot_state = Some st, slot_args = Some ar\<rparr>"
    by blast
  have "snd (handle (heap s' ! a) t) = Inr 0"
    using cc obj
    by (auto simp: handle_Running handle_NoState handle_Paused handle_PmSuspended
          RunningStateHandler_handle_continue)
  then have "handle (heap s' ! a) t = (fst (handle (heap s' ! a) t), Inr 0)"
    by (metis prod.collapse)
  with st call wf show ?thesis by blast
qed

lemma main_loop_polling_prefix:
  assumes "0 \<le> period ar" and "\<forall>t\<in>set pre. polling_tick ar t" and "wf_store s"
  shows "\<exists>s'. wf_store s' \<and> snd (main_loop ar (pre @ rest) s) = snd (main_loop ar rest s')"
  using assms(2,3)
proof (induction pre arbitrary: s)
  case Nil
  then show ?case by auto
next
  case (Cons t pre)
  from Cons.prems have pt: "polling_tick ar t" by simp
  from polling_tick_continues [OF Cons.prems(2) pt]
  obtain st a s1 evs where st: "state_result t = Inr st"
    and call: "StateHandler_call st ar s = Inr (a, s1)" and wf: "wf_store s1"
    and h: "handle (heap s1 ! a) t = (evs, Inr 0)"
    by blast
  have "snd (main_loop ar ((t # pre) @ rest) s) = snd (main_loop ar (pre @ rest) s1)"
    using main_loop_step [OF st call h, of "pre @ rest"] assms(1) by simp
  moreover from Cons.IH [OF _ wf] Cons.prems(1)
  obtain s' where "wf_store s'" and "snd (main_loop ar (pre @ rest) s1) = snd (main_loop ar rest s')"
    by auto
  ultimately show ?case by auto
qed

section \<open>The lifecycle state NoState\<close>

text \<open>
  Claim C1: for the lifecycle state NoState the dispatcher is said to resolve a registered
  no-op behaviour that logs and returns Continue, so that the loop keeps polling.
  The class \<open>NoStateStateHandler\<close>, whose \<open>handle\<close> logs \<open>VIR_DOMAIN_NOSTATE\<close>, is registered
  under \<open>VIR_DOMAIN_BLOCKED\<close>; nothing is registered under \<open>VIR_DOMAIN_NOSTATE\<close>. A domain
  that reports NoState makes the constructor raise \<open>KeyError\<close>, which leaves \<open>main\<close>: the
  process ends with status 1 instead of polling on.
\<close>

theorem NoState_dispatch_raises_KeyError:
  "registry VIR_DOMAIN_NOSTATE = None \<and>
   registry VIR_DOMAIN_BLOCKED = Some NoStateStateHandler \<and>
   StateHandler_call VIR_DOMAIN_NOSTATE ar s = Inl (KeyError 0) \<and>
   main_loop ar (vdom\<lparr>state_result := Inr VIR_DOMAIN_NOSTATE\<rparr> # rest) s =
     ([StateCall], Raised (KeyError 0)) \<and>
   main (default_args ''vm'')
     \<lparr>open_result = Inr (), lookupByName_result = Inr (), setMemoryStatsPeriod_result = Inr (),
      ticks = [\<lparr>state_result = Inr VIR_DOMAIN_NOSTATE, memoryStats_result = Inr Map.empty,
                setMemory_result = \<lambda>m. Inr ()\<rparr>]\<rparr> =
     ([OpenCall ''qemu:///session'', LookupByName ''vm'', SetMemoryStatsPeriod 5, StateCall, Close],
      Raised (KeyError 0)) \<and>
   exit_status (Raised (KeyError 0)) = Some 1"
proof -
  have r: "registry VIR_DOMAIN_NOSTATE = None" by (simp add: registry_simps)
  have k: "KeyError VIR_DOMAIN_NOSTATE = KeyError 0" by (simp add: VIR_DOMAIN_NOSTATE_def)
  have c: "StateHandler_call VIR_DOMAIN_NOSTATE ar s = Inl (KeyError 0)" for ar s
    using StateHandler_call_unregistered [OF r] k by simp
  have l: "main_loop ar (t\<lparr>state_result := Inr VIR_DOMAIN_NOSTATE\<rparr> # rest) s =
      ([StateCall], Raised (KeyError 0))" for ar t rest s
    by (simp add: c)
  have m: "main (default_args ''vm'')
     \<lparr>open_result = Inr (), lookupByName_result = Inr (), setMemoryStatsPeriod_result = Inr (),
      ticks = [\<lparr>state_result = Inr VIR_DOMAIN_NOSTATE, memoryStats_result = Inr Map.empty,
                setMemory_result = \<lambda>m. Inr ()\<rparr>]\<rparr> =
     ([OpenCall ''qemu:///session'', LookupByName ''vm'', SetMemoryStatsPeriod 5, StateCall, Close],
      Raised (KeyError 0))"
    by (simp add: main_def default_args_def c)
  show ?thesis using r c l m by (simp add: registry_simps exit_status_def)
qed

section \<open>The resize computation\<close>

text \<open>
  Claim C2: for every snapshot and configuration the target is
  \<open>actual - usable + free\<close>, raised to the configured minimum when it is not above it, and
  delta is actual minus the clamped target; delta is positive exactly when the target is
  below the current size (shrink) and negative exactly when it is above (grow). A field
  missing from the snapshot counts as 0.
\<close>

theorem resize_target_and_delta:
  "RunningStateHandler_compute ar memStats =
     Inr (dict_get memStats ''actual'' 0,
          spec_target (dict_get memStats ''actual'' 0) (dict_get memStats ''usable'' 0)
            (free ar) (min_kb ar),
          spec_delta (dict_get memStats ''actual'' 0)
            (spec_target (dict_get memStats ''actual'' 0) (dict_get memStats ''usable'' 0)
               (free ar) (min_kb ar))) \<and>
   (0 < spec_delta actual target) = (target < actual) \<and>
   (spec_delta actual target < 0) = (actual < target)"
  by (simp add: RunningStateHandler_compute_eq spec_target_def spec_delta_def)

section \<open>Field access on a snapshot\<close>

text \<open>
  Claim C4: for every name of the defined set of fields and every raw statistics
  mapping, reading the field returns the stored integer when the mapping has the name
  and 0 when it has not; the access returns a value and never an exception.
\<close>

theorem MemoryStats_field_or_zero:
  assumes "name \<in> attr_names"
  shows "MemoryStats_getattribute memoryStats name =
           Inr (case memoryStats name of Some v \<Rightarrow> v | None \<Rightarrow> 0)"
  using assms by (simp add: MemoryStats_getattribute_def dict_get_def split: option.split)

theorem MemoryStats_field_or_zero_witness:
  "''usable'' \<in> attr_names \<and>
   MemoryStats_getattribute [''actual'' \<mapsto> 4194304] ''usable'' = Inr 0 \<and>
   ''actual'' \<in> attr_names \<and>
   MemoryStats_getattribute [''actual'' \<mapsto> 4194304] ''actual'' = Inr 4194304"
proof -
  have u: "''usable'' \<in> attr_names" and a: "''actual'' \<in> attr_names"
    by (simp_all add: attr_names_def)
  from MemoryStats_field_or_zero [OF u, of "[''actual'' \<mapsto> 4194304]"]
       MemoryStats_field_or_zero [OF a, of "[''actual'' \<mapsto> 4194304]"] u a
  show ?thesis by simp
qed

section \<open>A poll period of zero\<close>

text \<open>
  Claim C8: with a poll period of 0, \<open>main\<close> returns 0 before anything else happens: no
  connection is opened, no tick runs (the list of events is empty), and the exit status
  is 0.
\<close>

theorem period_zero_exits_at_once:
  assumes "period ar = 0"
  shows "main ar env = ([], Returned 0) \<and> exit_status (snd (main ar env)) = Some 0"
  using assms by (simp add: main_def exit_status_def)

theorem period_zero_exits_at_once_witness:
  "period ((default_args ''vm'')\<lparr>period := 0\<rparr>) = 0 \<and>
   main ((default_args ''vm'')\<lparr>period := 0\<rparr>)
     \<lparr>open_result = Inr (), lookupByName_result = Inr (), setMemoryStatsPeriod_result = Inr (),
      ticks = []\<rparr> = ([], Returned 0)"
proof -
  have h: "period ((default_args ''vm'')\<lparr>period := 0\<rparr>) = 0" by simp
  from period_zero_exits_at_once [OF h] h show ?thesis by simp
qed

section \<open>States without a handler\<close>

text \<open>
  Claim C9: for every state value with no registered class, the constructor raises
  \<open>KeyError\<close>. In the loop the exception is raised before any handler runs, outside the
  \<open>try\<close> statement of the Running handler, so nothing is logged, the exception leaves
  the loop and the process ends with status 1.
\<close>

theorem unmapped_state_raises:
  assumes "registry st = None"
  shows "StateHandler_call st ar s = Inl (KeyError st) \<and>
         (state_result vdom = Inr st \<longrightarrow>
            main_loop ar (vdom # rest) s = ([StateCall], Raised (KeyError st)) \<and>
            (\<forall>c l m. Log c l m \<notin> set (fst (main_loop ar (vdom # rest) s))) \<and>
            exit_status (snd (main_loop ar (vdom # rest) s)) = Some 1)"
  using assms
  by (simp add: StateHandler_call_unregistered main_loop_unregistered exit_status_def)

theorem unmapped_state_raises_witness:
  "registry VIR_DOMAIN_CRASHED = None \<and>
   StateHandler_call VIR_DOMAIN_CRASHED (default_args ''vm'') init_store = Inl (KeyError 6) \<and>
   main_loop (default_args ''vm'')
     [\<lparr>state_result = Inr VIR_DOMAIN_CRASHED, memoryStats_result = Inr Map.empty,
       setMemory_result = \<lambda>m. Inr ()\<rparr>] init_store = ([StateCall], Raised (KeyError 6))"
proof -
  have h: "registry VIR_DOMAIN_CRASHED = None" by (simp add: registry_simps)
  from unmapped_state_raises [OF h, of "default_args ''vm''" init_store
      "\<lparr>state_result = Inr VIR_DOMAIN_CRASHED, memoryStats_result = Inr Map.empty,
        setMemory_result = \<lambda>m. Inr ()\<rparr>" "[]"] h
  show ?thesis by (simp add: VIR_DOMAIN_CRASHED_def)
qed

section \<open>The hysteresis gate\<close>

lemma figures_fit_eq:
  assumes "RunningStateHandler_compute ar memStats = Inr (prevMem, mem, delta)"
  shows "figures_fit ar memStats =
           (fits_float (dict_get memStats ''actual'' 0) \<and>
            fits_float (dict_get memStats ''usable'' 0) \<and> fits_float delta \<and> fits_float mem)"
  using assms by (simp add: figures_fit_def)

lemma RunningStateHandler_handle_stats_ok:
  assumes "slot_args self = Some ar" and "memoryStats_result vdom = Inr memStats"
    and "RunningStateHandler_compute ar memStats = Inr (prevMem, mem, delta)"
  shows "filter is_SetMemory (fst (RunningStateHandler_handle self vdom)) =
           (if (delta < - minThreshold ar \<or> delta > maxThreshold ar) \<and> figures_fit ar memStats
            then [SetMemory mem] else [])"
proof (cases "fits_float (dict_get memStats ''actual'' 0) \<and>
              fits_float (dict_get memStats ''usable'' 0) \<and> fits_float delta")
  case False
  with RunningStateHandler_try_stats_ok [OF assms]
  have "RunningStateHandler_try self vdom = ([MemoryStatsCall], Inl OverflowError)" by simp
  moreover from False have "\<not> figures_fit ar memStats"
    by (auto simp: figures_fit_eq [OF assms(3)])
  ultimately show ?thesis by (simp add: RunningStateHandler_handle_def)
next
  case shown: True
  show ?thesis
  proof (cases "delta < - minThreshold ar \<or> delta > maxThreshold ar")
    case False
    with shown RunningStateHandler_try_stats_ok [OF assms]
    have "RunningStateHandler_try self vdom =
            ([MemoryStatsCall, Log RunningStateHandler DEBUG debug_format], Inr ())"
      by simp
    with False show ?thesis by (simp add: RunningStateHandler_handle_def)
  next
    case gate: True
    show ?thesis
    proof (cases "fits_float mem")
      case False
      with shown gate RunningStateHandler_try_stats_ok [OF assms]
      have "RunningStateHandler_try self vdom =
              ([MemoryStatsCall, Log RunningStateHandler DEBUG debug_format], Inl OverflowError)"
        by simp
      moreover from False have "\<not> figures_fit ar memStats"
        by (simp add: figures_fit_eq [OF assms(3)])
      ultimately show ?thesis by (simp add: RunningStateHandler_handle_def)
    next
      case True
      with shown gate RunningStateHandler_try_stats_ok [OF assms]
      have t: "RunningStateHandler_try self vdom =
              ([MemoryStatsCall, Log RunningStateHandler DEBUG debug_format,
                Log RunningStateHandler INFO ''memory resized to %.2f (%+.2fMB)'',
                SetMemory mem], setMemory_result vdom mem)"
        by simp
      from True shown have f: "figures_fit ar memStats"
        by (simp add: figures_fit_eq [OF assms(3)])
      show ?thesis
        using gate f
        by (cases "setMemory_result vdom mem") (simp_all add: RunningStateHandler_handle_def t)
    qed
  qed
qed

lemma RunningStateHandler_handle_overflow:
  assumes "slot_args self = Some ar" and "memoryStats_result vdom = Inr memStats"
    and "RunningStateHandler_compute ar memStats = Inr (prevMem, mem, delta)"
    and "delta < - minThreshold ar \<or> delta > maxThreshold ar" and "\<not> figures_fit ar memStats"
  shows "snd (RunningStateHandler_handle self vdom) = Inl OverflowError"
proof (cases "fits_float (dict_get memStats ''actual'' 0) \<and>
              fits_float (dict_get memStats ''usable'' 0) \<and> fits_float delta")
  case False
  with RunningStateHandler_try_stats_ok [OF assms(1-3)]
  have "RunningStateHandler_try self vdom = ([MemoryStatsCall], Inl OverflowError)" by simp
  then show ?thesis by (simp add: RunningStateHandler_handle_def)
next
  case True
  with assms(5) have "\<not> fits_float mem" by (simp add: figures_fit_eq [OF assms(3)])
  with True assms(4) RunningStateHandler_try_stats_ok [OF assms(1-3)]
  have "RunningStateHandler_try self vdom =
          ([MemoryStatsCall, Log RunningStateHandler DEBUG debug_format], Inl OverflowError)"
    by simp
  then show ?thesis by (simp add: RunningStateHandler_handle_def)
qed

text \<open>
  Beyond the bound the handler raises: with \<open>--free\<close> at \<open>2^1100\<close> and empty statistics,
  delta is \<open>-2^1100\<close>, the gate is open, and \<open>delta/1024\<close> on line 91 raises before
  anything is logged or requested.
\<close>

lemma RunningStateHandler_handle_overflow_example:
  "handle \<lparr>cls = RunningStateHandler, slot_state = Some VIR_DOMAIN_RUNNING,
           slot_args = Some ((default_args ''vm'')\<lparr>free := 2 ^ 1100\<rparr>)\<rparr>
     \<lparr>state_result = Inr VIR_DOMAIN_RUNNING, memoryStats_result = Inr Map.empty,
      setMemory_result = \<lambda>m. Inr ()\<rparr> = ([MemoryStatsCall], Inl OverflowError)"
proof -
  let ?ar = "(default_args ''vm'')\<lparr>free := 2 ^ 1100\<rparr>"
  let ?self = "\<lparr>cls = RunningStateHandler, slot_state = Some VIR_DOMAIN_RUNNING,
                slot_args = Some ?ar\<rparr>"
  let ?t = "\<lparr>state_result = Inr VIR_DOMAIN_RUNNING,
             memoryStats_result = (Inr Map.empty :: error + MemoryStats),
             setMemory_result = \<lambda>m::int. (Inr () :: error + unit)\<rparr>"
  have sa: "slot_args ?self = Some ?ar" and ms: "memoryStats_result ?t = Inr Map.empty"
    by simp_all
  have cmp: "RunningStateHandler_compute ?ar Map.empty = Inr (0, 2 ^ 1100, - (2 ^ 1100))"
    by (simp add: RunningStateHandler_compute_eq dict_get_def default_args_def)
  have big: "\<not> fits_float (- (2 ^ 1100))" by (simp add: fits_float_def)
  from RunningStateHandler_try_stats_ok [OF sa ms cmp] big
  have "RunningStateHandler_try ?self ?t = ([MemoryStatsCall], Inl OverflowError)" by simp
  then show ?thesis by (simp add: handle_Running RunningStateHandler_handle_def)
qed

text \<open>
  Claim C3: in a Running tick whose statistics were fetched, \<open>setMemory\<close> is called, with
  the clamped target and once, if and only if \<open>delta < -minThreshold\<close> or
  \<open>delta > maxThreshold\<close>; whenever \<open>-minThreshold \<le> delta \<le> maxThreshold\<close> no
  \<open>setMemory\<close> call is made in that tick. The figures are those a float can show in MB,
  below \<open>2^1034 - 2^980\<close> KB in magnitude: with the gate open and a figure beyond that,
  the division that prepares the log line raises \<open>OverflowError\<close> before \<open>setMemory\<close> is
  reached. That a call is made only for a delta outside the band, and only with the
  clamped target, holds for all figures.
\<close>

theorem hysteresis_gate:
  assumes "cls self = RunningStateHandler" and "slot_args self = Some ar"
    and "memoryStats_result vdom = Inr memStats"
    and "RunningStateHandler_compute ar memStats = Inr (prevMem, mem, delta)"
  shows "filter is_SetMemory (fst (handle self vdom)) =
           (if (delta < - minThreshold ar \<or> delta > maxThreshold ar) \<and> figures_fit ar memStats
            then [SetMemory mem] else []) \<and>
         (figures_fit ar memStats \<longrightarrow>
            (SetMemory mem \<in> set (fst (handle self vdom))) =
              (delta < - minThreshold ar \<or> delta > maxThreshold ar)) \<and>
         (\<forall>m. SetMemory m \<in> set (fst (handle self vdom)) \<longrightarrow>
            m = mem \<and> (delta < - minThreshold ar \<or> delta > maxThreshold ar)) \<and>
         (- minThreshold ar \<le> delta \<and> delta \<le> maxThreshold ar \<longrightarrow>
            (\<forall>m. SetMemory m \<notin> set (fst (handle self vdom)))) \<and>
         ((delta < - minThreshold ar \<or> delta > maxThreshold ar) \<and> \<not> figures_fit ar memStats \<longrightarrow>
            snd (handle self vdom) = Inl OverflowError)"
proof -
  have h: "handle self vdom = RunningStateHandler_handle self vdom"
    using assms(1) by (simp add: handle_def)
  have f: "filter is_SetMemory (fst (handle self vdom)) =
           (if (delta < - minThreshold ar \<or> delta > maxThreshold ar) \<and> figures_fit ar memStats
            then [SetMemory mem] else [])"
    using RunningStateHandler_handle_stats_ok [OF assms(2-4)] h by simp
  have m: "(SetMemory m \<in> set evs) = (SetMemory m \<in> set (filter is_SetMemory evs))" for m evs
    by simp
  have o: "(delta < - minThreshold ar \<or> delta > maxThreshold ar) \<and> \<not> figures_fit ar memStats \<longrightarrow>
            snd (handle self vdom) = Inl OverflowError"
    using RunningStateHandler_handle_overflow [OF assms(2-4)] h by simp
  have a: "figures_fit ar memStats \<longrightarrow>
            (SetMemory mem \<in> set (fst (handle self vdom))) =
              (delta < - minThreshold ar \<or> delta > maxThreshold ar)"
    unfolding m [of _ "fst (handle self vdom)"] f by simp
  have b: "\<forall>m. SetMemory m \<in> set (fst (handle self vdom)) \<longrightarrow>
            m = mem \<and> (delta < - minThreshold ar \<or> delta > maxThreshold ar)"
    unfolding m [of _ "fst (handle self vdom)"] f by (simp split: if_splits)
  have c: "- minThreshold ar \<le> delta \<and> delta \<le> maxThreshold ar \<longrightarrow>
            (\<forall>m. SetMemory m \<notin> set (fst (handle self vdom)))"
    unfolding m [of _ "fst (handle self vdom)"] f by simp
  from f a b c o show ?thesis by (intro conjI)
qed

theorem hysteresis_gate_witness:
  "figures_fit (default_args ''vm'') [''actual'' \<mapsto> 4194304, ''usable'' \<mapsto> 3072000] \<and>
   filter is_SetMemory
     (fst (handle \<lparr>cls = RunningStateHandler, slot_state = Some 1, slot_args = Some (default_args ''vm'')\<rparr>
        \<lparr>state_result = Inr 1, memoryStats_result = Inr [''actual'' \<mapsto> 4194304, ''usable'' \<mapsto> 3072000],
         setMemory_result = \<lambda>m. Inr ()\<rparr>)) = [SetMemory 2170880] \<and>
   filter is_SetMemory
     (fst (handle \<lparr>cls = RunningStateHandler, slot_state = Some 1, slot_args = Some (default_args ''vm'')\<rparr>
        \<lparr>state_result = Inr 1, memoryStats_result = Inr [''actual'' \<mapsto> 4194304, ''usable'' \<mapsto> 1100000],
         setMemory_result = \<lambda>m. Inr ()\<rparr>)) = []"
proof -
  let ?self = "\<lparr>cls = RunningStateHandler, slot_state = Some 1, slot_args = Some (default_args ''vm'')\<rparr>"
  let ?far = "[''actual'' \<mapsto> 4194304, ''usable'' \<mapsto> (3072000::int)]"
  let ?near = "[''actual'' \<mapsto> 4194304, ''usable'' \<mapsto> (1100000::int)]"
  have c: "cls ?self = RunningStateHandler" and a: "slot_args ?self = Some (default_args ''vm'')"
    by simp_all
  have far: "RunningStateHandler_compute (default_args ''vm'') ?far = Inr (4194304, 2170880, 2023424)"
    by (simp add: RunningStateHandler_compute_eq dict_get_def default_args_def)
  have near: "RunningStateHandler_compute (default_args ''vm'') ?near = Inr (4194304, 4142880, 51424)"
    by (simp add: RunningStateHandler_compute_eq dict_get_def default_args_def)
  have fit: "figures_fit (default_args ''vm'') ?far"
    by (simp add: figures_fit_eq [OF far] dict_get_def fits_float_def)
  have s1: "memoryStats_result \<lparr>state_result = Inr 1, memoryStats_result = Inr ?far,
         setMemory_result = \<lambda>m. Inr ()\<rparr> = Inr ?far"
    and s2: "memoryStats_result \<lparr>state_result = Inr 1, memoryStats_result = Inr ?near,
         setMemory_result = \<lambda>m. Inr ()\<rparr> = Inr ?near"
    by simp_all
  from hysteresis_gate [OF c a s1 far] hysteresis_gate [OF c a s2 near] fit
  show ?thesis by (simp add: default_args_def)
qed

section \<open>One instance for each state\<close>

lemma StateHandler_call_keeps_handlers:
  assumes "handlers s st = Some a" and "StateHandler_call st' ar s = Inr (b, s')"
  shows "handlers s' st = Some a"
proof (cases "registry st'")
  case None
  with assms(2) show ?thesis by (simp add: StateHandler_call_unregistered)
next
  case (Some c)
  show ?thesis
  proof (cases "handlers s st'")
    case None
    with assms(1) have "st \<noteq> st'" by auto
    with assms StateHandler_call_fresh [OF Some None, of ar] show ?thesis by auto
  next
    case (Some b')
    with assms StateHandler_call_cached [OF \<open>registry st' = Some c\<close> Some, of ar] show ?thesis
      by (auto simp: StateHandler_init_def)
  qed
qed

lemma dispatch_all_keeps_handlers:
  "handlers s st = Some a \<Longrightarrow> handlers (dispatch_all calls s) st = Some a"
proof (induction calls arbitrary: s)
  case Nil
  then show ?case by simp
next
  case (Cons call calls)
  obtain st' ar where call: "call = (st', ar)" by (cases call)
  show ?case
  proof (cases "StateHandler_call st' ar s")
    case (Inl e)
    with Cons call show ?thesis by simp
  next
    case (Inr r)
    obtain b s' where r: "r = (b, s')" by (cases r)
    from StateHandler_call_keeps_handlers [OF Cons.prems] Inr r
    have "handlers s' st = Some a" by simp
    from Cons.IH [OF this] Inr r call show ?thesis by simp
  qed
qed

lemma StateHandler_call_result:
  assumes "registry st = Some c"
  shows "\<exists>a s1. StateHandler_call st ar s = Inr (a, s1) \<and> handlers s1 st = Some a \<and>
           (handlers s st = None \<longrightarrow> a = length (heap s) \<and> length (heap s1) = Suc (length (heap s))) \<and>
           (\<forall>b. handlers s st = Some b \<longrightarrow> a = b \<and> length (heap s1) = length (heap s))"
proof (cases "handlers s st")
  case None
  with StateHandler_call_fresh [OF assms None, of ar] show ?thesis by simp
next
  case (Some b)
  with StateHandler_call_cached [OF assms Some, of ar] show ?thesis
    by (simp add: StateHandler_init_def)
qed

text \<open>
  Claim C5: for every state with a registered class, constructing the handler again,
  after any further constructor calls for any states, returns the same instance (the
  same address) and allocates nothing. The instance is created by the first request:
  the store starts empty, a state not yet cached gets a fresh object at the end of the
  heap, and a cached state returns the cached address.
\<close>

theorem singleton_per_state:
  assumes "registry st = Some c"
  shows "heap init_store = [] \<and> handlers init_store = Map.empty \<and>
         (\<exists>a s1. StateHandler_call st ar s = Inr (a, s1) \<and>
            (handlers s st = None \<longrightarrow>
               a = length (heap s) \<and> length (heap s1) = Suc (length (heap s))) \<and>
            (\<forall>b. handlers s st = Some b \<longrightarrow> a = b \<and> length (heap s1) = length (heap s)) \<and>
            (\<forall>calls ar'. \<exists>s2.
               StateHandler_call st ar' (dispatch_all calls s1) = Inr (a, s2) \<and>
               length (heap s2) = length (heap (dispatch_all calls s1))))"
proof -
  from StateHandler_call_result [OF assms, of ar s]
  obtain a s1 where call: "StateHandler_call st ar s = Inr (a, s1)" and h: "handlers s1 st = Some a"
    and fresh: "handlers s st = None \<longrightarrow> a = length (heap s) \<and> length (heap s1) = Suc (length (heap s))"
    and cached: "\<forall>b. handlers s st = Some b \<longrightarrow> a = b \<and> length (heap s1) = length (heap s)"
    by (elim exE conjE)
  have again: "\<forall>calls ar'. \<exists>s2.
               StateHandler_call st ar' (dispatch_all calls s1) = Inr (a, s2) \<and>
               length (heap s2) = length (heap (dispatch_all calls s1))"
  proof (intro allI)
    fix calls ar'
    have k: "handlers (dispatch_all calls s1) st = Some a"
      using h by (rule dispatch_all_keeps_handlers)
    from StateHandler_call_result [OF assms, of ar' "dispatch_all calls s1"]
    obtain a' s2 where c2: "StateHandler_call st ar' (dispatch_all calls s1) = Inr (a', s2)"
      and k2: "\<forall>b. handlers (dispatch_all calls s1) st = Some b \<longrightarrow>
                 a' = b \<and> length (heap s2) = length (heap (dispatch_all calls s1))"
      by (elim exE conjE)
    from k k2 have "a' = a" and "length (heap s2) = length (heap (dispatch_all calls s1))"
      by simp_all
    with c2 show "\<exists>s2. StateHandler_call st ar' (dispatch_all calls s1) = Inr (a, s2) \<and>
               length (heap s2) = length (heap (dispatch_all calls s1))"
      by simp
  qed
  have empty: "heap init_store = []" "handlers init_store = Map.empty"
    by (simp_all add: init_store_def)
  have "StateHandler_call st ar s = Inr (a, s1) \<and>
            (handlers s st = None \<longrightarrow>
               a = length (heap s) \<and> length (heap s1) = Suc (length (heap s))) \<and>
            (\<forall>b. handlers s st = Some b \<longrightarrow> a = b \<and> length (heap s1) = length (heap s)) \<and>
            (\<forall>calls ar'. \<exists>s2.
               StateHandler_call st ar' (dispatch_all calls s1) = Inr (a, s2) \<and>
               length (heap s2) = length (heap (dispatch_all calls s1)))"
    using call fresh cached again by (intro conjI)
  then have "\<exists>a s1. StateHandler_call st ar s = Inr (a, s1) \<and>
            (handlers s st = None \<longrightarrow>
               a = length (heap s) \<and> length (heap s1) = Suc (length (heap s))) \<and>
            (\<forall>b. handlers s st = Some b \<longrightarrow> a = b \<and> length (heap s1) = length (heap s)) \<and>
            (\<forall>calls ar'. \<exists>s2.
               StateHandler_call st ar' (dispatch_all calls s1) = Inr (a, s2) \<and>
               length (heap s2) = length (heap (dispatch_all calls s1)))"
    by (intro exI)
  with empty show ?thesis by (intro conjI)
qed

theorem singleton_per_state_witness:
  "registry VIR_DOMAIN_RUNNING = Some RunningStateHandler \<and>
   (\<exists>s1 s2. StateHandler_call VIR_DOMAIN_RUNNING (default_args ''vm'') init_store = Inr (0, s1) \<and>
      StateHandler_call VIR_DOMAIN_RUNNING (default_args ''vm'')
        (dispatch_all [(VIR_DOMAIN_PAUSED, default_args ''vm'')] s1) = Inr (0, s2))"
proof -
  have h: "registry VIR_DOMAIN_RUNNING = Some RunningStateHandler" by (simp add: registry_simps)
  have e: "handlers init_store VIR_DOMAIN_RUNNING = None" "heap init_store = []"
    by (simp_all add: init_store_def)
  from singleton_per_state [OF h, of "default_args ''vm''" init_store, THEN conjunct2, THEN conjunct2]
  obtain a s1 where c: "StateHandler_call VIR_DOMAIN_RUNNING (default_args ''vm'') init_store = Inr (a, s1)"
    and a: "handlers init_store VIR_DOMAIN_RUNNING = None \<longrightarrow>
              a = length (heap init_store) \<and> length (heap s1) = Suc (length (heap init_store))"
    and r: "\<forall>calls ar'. \<exists>s2.
               StateHandler_call VIR_DOMAIN_RUNNING ar' (dispatch_all calls s1) = Inr (a, s2) \<and>
               length (heap s2) = length (heap (dispatch_all calls s1))"
    by (elim exE conjE)
  from a e have z: "a = 0" by simp
  from r obtain s2 where "StateHandler_call VIR_DOMAIN_RUNNING (default_args ''vm'')
        (dispatch_all [(VIR_DOMAIN_PAUSED, default_args ''vm'')] s1) = Inr (a, s2)"
    by blast
  with c z h show ?thesis by blast
qed

section \<open>Stop and continue\<close>

lemma RunningStateHandler_handle_never_stops:
  assumes "snd (RunningStateHandler_handle self vdom) = Inr r"
  shows "r = 0"
proof (cases "RunningStateHandler_try self vdom")
  case (Pair evs res)
  show ?thesis
  proof (cases res)
    case (Inl e)
    with Pair assms show ?thesis
      by (cases "is_libvirtError e") (simp_all add: RunningStateHandler_handle_def)
  next
    case (Inr u)
    with Pair assms show ?thesis by (simp add: RunningStateHandler_handle_def)
  qed
qed

lemma stop_tick:
  assumes "wf_store s" and "state_result vdom = Inr st"
    and "st = VIR_DOMAIN_SHUTDOWN \<or> st = VIR_DOMAIN_SHUTOFF"
  shows "\<exists>a s' evs. StateHandler_call st ar s = Inr (a, s') \<and>
           handle (heap s' ! a) vdom = (evs, Inr 1) \<and>
           main_loop ar (vdom # rest) s = (StateCall # evs, Returned 0)"
proof -
  from assms(3) obtain c where c: "registry st = Some c"
    and cc: "c = ShutdownStateHandler \<or> c = ShutoffStateHandler"
    by (auto simp: registry_simps)
  from StateHandler_call_object [OF assms(1) c, of ar]
  obtain a s' where call: "StateHandler_call st ar s = Inr (a, s')"
    and obj: "heap s' ! a = \<lparr>cls = c, slot_state = Some st, slot_args = Some ar\<rparr>"
    by blast
  from cc obj obtain evs where h: "handle (heap s' ! a) vdom = (evs, Inr 1)"
    by (auto simp: handle_Shutdown handle_Shutoff)
  from main_loop_step [OF assms(2) call h, of rest]
  have "main_loop ar (vdom # rest) s = (StateCall # evs, Returned 0)" by simp
  with call h show ?thesis by blast
qed

lemma main_snd:
  assumes "period ar \<noteq> 0" and "open_result env = Inr ()" and "lookupByName_result env = Inr ()"
    and "setMemoryStatsPeriod_result env = Inr ()"
  shows "snd (main ar env) = snd (main_loop ar (ticks env) init_store)"
  using assms by (simp add: main_def case_prod_unfold)

lemma main_stops_after_polling:
  assumes "0 < period ar" and "\<forall>t\<in>set pre. polling_tick ar t"
    and "state_result vdom = Inr st" and "st = VIR_DOMAIN_SHUTDOWN \<or> st = VIR_DOMAIN_SHUTOFF"
    and "open_result env = Inr ()" and "lookupByName_result env = Inr ()"
    and "setMemoryStatsPeriod_result env = Inr ()" and "ticks env = pre @ vdom # rest"
  shows "snd (main ar env) = Returned 0"
proof -
  from assms(1) have p: "0 \<le> period ar" and nz: "period ar \<noteq> 0" by simp_all
  from main_loop_polling_prefix [OF p assms(2) wf_init_store, of "vdom # rest"]
  obtain s' where wf: "wf_store s'"
    and eq: "snd (main_loop ar (pre @ vdom # rest) init_store) = snd (main_loop ar (vdom # rest) s')"
    by blast
  from stop_tick [OF wf assms(3,4), of ar rest]
  have "snd (main_loop ar (vdom # rest) s') = Returned 0" by auto
  with eq main_snd [OF nz assms(5-7)] assms(8) show ?thesis by simp
qed

text \<open>
  Claim C6: the handlers bound to \<open>VIR_DOMAIN_SHUTDOWN\<close> and \<open>VIR_DOMAIN_SHUTOFF\<close> return
  the stop signal 1, and a tick whose handler returns it ends the loop: \<open>main\<close> returns 0
  and the exit status is 0, also after any number of ticks on which the loop kept
  polling. The handlers bound to \<open>VIR_DOMAIN_PAUSED\<close> and \<open>VIR_DOMAIN_PMSUSPENDED\<close> return
  0, and so does the handler bound to \<open>VIR_DOMAIN_RUNNING\<close>: it never returns anything but
  0, and it does return when nothing but \<open>libvirtError\<close> is raised in it, that is when the
  hypervisor raises nothing else and the figures of the tick are below
  \<open>2^1034 - 2^980\<close> KB in magnitude.
\<close>

theorem stop_and_continue_signals:
  assumes "wf_store s" and "state_result vdom = Inr st"
  shows "(st = VIR_DOMAIN_SHUTDOWN \<or> st = VIR_DOMAIN_SHUTOFF \<longrightarrow>
            (\<exists>a s' evs. StateHandler_call st ar s = Inr (a, s') \<and>
               handle (heap s' ! a) vdom = (evs, Inr 1) \<and>
               main_loop ar (vdom # rest) s = (StateCall # evs, Returned 0) \<and>
               exit_status (snd (main_loop ar (vdom # rest) s)) = Some 0)) \<and>
         (st = VIR_DOMAIN_PAUSED \<or> st = VIR_DOMAIN_PMSUSPENDED \<longrightarrow>
            (\<exists>a s' evs. StateHandler_call st ar s = Inr (a, s') \<and>
               handle (heap s' ! a) vdom = (evs, Inr 0))) \<and>
         (st = VIR_DOMAIN_RUNNING \<longrightarrow>
            (\<exists>a s'. StateHandler_call st ar s = Inr (a, s') \<and>
               (\<forall>r. snd (handle (heap s' ! a) vdom) = Inr r \<longrightarrow> r = 0) \<and>
               (running_tick_ok ar vdom \<longrightarrow> snd (handle (heap s' ! a) vdom) = Inr 0))) \<and>
         ((st = VIR_DOMAIN_SHUTDOWN \<or> st = VIR_DOMAIN_SHUTOFF) \<and> 0 < period ar \<and>
          (\<forall>t\<in>set pre. polling_tick ar t) \<and> open_result env = Inr () \<and>
          lookupByName_result env = Inr () \<and> setMemoryStatsPeriod_result env = Inr () \<and>
          ticks env = pre @ vdom # rest \<longrightarrow>
            snd (main ar env) = Returned 0 \<and> exit_status (snd (main ar env)) = Some 0)"
proof (intro conjI impI)
  assume st: "st = VIR_DOMAIN_SHUTDOWN \<or> st = VIR_DOMAIN_SHUTOFF"
  from stop_tick [OF assms st, of ar rest]
  obtain a s' evs where call: "StateHandler_call st ar s = Inr (a, s')"
    and h: "handle (heap s' ! a) vdom = (evs, Inr 1)"
    and l: "main_loop ar (vdom # rest) s = (StateCall # evs, Returned 0)"
    by blast
  from l have "exit_status (snd (main_loop ar (vdom # rest) s)) = Some 0"
    by (simp add: exit_status_def)
  with call h l
  show "\<exists>a s' evs. StateHandler_call st ar s = Inr (a, s') \<and>
               handle (heap s' ! a) vdom = (evs, Inr 1) \<and>
               main_loop ar (vdom # rest) s = (StateCall # evs, Returned 0) \<and>
               exit_status (snd (main_loop ar (vdom # rest) s)) = Some 0"
    by blast
next
  assume st: "st = VIR_DOMAIN_PAUSED \<or> st = VIR_DOMAIN_PMSUSPENDED"
  then obtain c where c: "registry st = Some c"
    and cc: "c = PausedStateHandler \<or> c = PmSuspendedStateHandler"
    by (auto simp: registry_simps)
  from StateHandler_call_object [OF assms(1) c, of ar]
  obtain a s' where call: "StateHandler_call st ar s = Inr (a, s')"
    and obj: "heap s' ! a = \<lparr>cls = c, slot_state = Some st, slot_args = Some ar\<rparr>"
    by blast
  from cc obj obtain evs where "handle (heap s' ! a) vdom = (evs, Inr 0)"
    by (auto simp: handle_Paused handle_PmSuspended)
  with call show "\<exists>a s' evs. StateHandler_call st ar s = Inr (a, s') \<and>
               handle (heap s' ! a) vdom = (evs, Inr 0)"
    by blast
next
  assume st: "st = VIR_DOMAIN_RUNNING"
  then have c: "registry st = Some RunningStateHandler" by (simp add: registry_simps)
  from StateHandler_call_object [OF assms(1) c, of ar]
  obtain a s' where call: "StateHandler_call st ar s = Inr (a, s')"
    and obj: "heap s' ! a = \<lparr>cls = RunningStateHandler, slot_state = Some st, slot_args = Some ar\<rparr>"
    by blast
  have h: "handle (heap s' ! a) vdom = RunningStateHandler_handle (heap s' ! a) vdom"
    by (simp add: obj handle_Running)
  have sa: "slot_args (heap s' ! a) = Some ar" by (simp add: obj)
  have never: "\<forall>r. snd (handle (heap s' ! a) vdom) = Inr r \<longrightarrow> r = 0"
    unfolding h by (intro allI impI) (rule RunningStateHandler_handle_never_stops)
  have cont: "running_tick_ok ar vdom \<longrightarrow> snd (handle (heap s' ! a) vdom) = Inr 0"
    unfolding h by (intro impI) (rule RunningStateHandler_handle_continue [OF sa])
  from call never cont
  show "\<exists>a s'. StateHandler_call st ar s = Inr (a, s') \<and>
               (\<forall>r. snd (handle (heap s' ! a) vdom) = Inr r \<longrightarrow> r = 0) \<and>
               (running_tick_ok ar vdom \<longrightarrow> snd (handle (heap s' ! a) vdom) = Inr 0)"
    by blast
next
  assume a: "(st = VIR_DOMAIN_SHUTDOWN \<or> st = VIR_DOMAIN_SHUTOFF) \<and> 0 < period ar \<and>
          (\<forall>t\<in>set pre. polling_tick ar t) \<and> open_result env = Inr () \<and>
          lookupByName_result env = Inr () \<and> setMemoryStatsPeriod_result env = Inr () \<and>
          ticks env = pre @ vdom # rest"
  then have "snd (main ar env) = Returned 0"
    using main_stops_after_polling [of ar pre vdom st env rest] assms(2) by simp
  then show "snd (main ar env) = Returned 0" .
next
  assume a: "(st = VIR_DOMAIN_SHUTDOWN \<or> st = VIR_DOMAIN_SHUTOFF) \<and> 0 < period ar \<and>
          (\<forall>t\<in>set pre. polling_tick ar t) \<and> open_result env = Inr () \<and>
          lookupByName_result env = Inr () \<and> setMemoryStatsPeriod_result env = Inr () \<and>
          ticks env = pre @ vdom # rest"
  then have "snd (main ar env) = Returned 0"
    using main_stops_after_polling [of ar pre vdom st env rest] assms(2) by simp
  then show "exit_status (snd (main ar env)) = Some 0" by (simp add: exit_status_def)
qed

theorem stop_and_continue_signals_witness:
  "wf_store init_store \<and>
   polling_tick (default_args ''vm'')
     \<lparr>state_result = Inr VIR_DOMAIN_RUNNING,
                 memoryStats_result = Inr [''actual'' \<mapsto> 4194304, ''usable'' \<mapsto> 3072000],
                 setMemory_result = \<lambda>m. Inr ()\<rparr> \<and>
   snd (main (default_args ''vm'')
     \<lparr>open_result = Inr (), lookupByName_result = Inr (), setMemoryStatsPeriod_result = Inr (),
      ticks = [\<lparr>state_result = Inr VIR_DOMAIN_RUNNING,
                memoryStats_result = Inr [''actual'' \<mapsto> 4194304, ''usable'' \<mapsto> 3072000],
                setMemory_result = \<lambda>m. Inr ()\<rparr>,
               \<lparr>state_result = Inr VIR_DOMAIN_SHUTDOWN, memoryStats_result = Inr Map.empty,
                setMemory_result = \<lambda>m. Inr ()\<rparr>]\<rparr>) = Returned 0"
proof -
  let ?run = "\<lparr>state_result = Inr VIR_DOMAIN_RUNNING,
               memoryStats_result = Inr [''actual'' \<mapsto> 4194304, ''usable'' \<mapsto> (3072000::int)],
               setMemory_result = \<lambda>m::int. (Inr () :: error + unit)\<rparr>"
  let ?stop = "\<lparr>state_result = Inr VIR_DOMAIN_SHUTDOWN, memoryStats_result = Inr Map.empty,
                setMemory_result = \<lambda>m::int. (Inr () :: error + unit)\<rparr>"
  let ?env = "\<lparr>open_result = Inr (), lookupByName_result = Inr (),
               setMemoryStatsPeriod_result = Inr (), ticks = [?run, ?stop]\<rparr>"
  have "RunningStateHandler_compute (default_args ''vm'')
          [''actual'' \<mapsto> 4194304, ''usable'' \<mapsto> 3072000] = Inr (4194304, 2170880, 2023424)"
    by (simp add: RunningStateHandler_compute_eq dict_get_def default_args_def)
  then have fit: "figures_fit (default_args ''vm'') [''actual'' \<mapsto> 4194304, ''usable'' \<mapsto> 3072000]"
    by (simp add: figures_fit_def dict_get_def fits_float_def)
  have p: "polling_tick (default_args ''vm'') ?run"
    by (simp add: polling_tick_def running_tick_ok_def libvirt_errors_only_def fit)
  have st: "state_result ?stop = Inr VIR_DOMAIN_SHUTDOWN" by simp
  have hyp: "(VIR_DOMAIN_SHUTDOWN = VIR_DOMAIN_SHUTDOWN \<or> VIR_DOMAIN_SHUTDOWN = VIR_DOMAIN_SHUTOFF) \<and>
      0 < period (default_args ''vm'') \<and> (\<forall>t\<in>set [?run]. polling_tick (default_args ''vm'') t) \<and>
      open_result ?env = Inr () \<and> lookupByName_result ?env = Inr () \<and>
      setMemoryStatsPeriod_result ?env = Inr () \<and> ticks ?env = [?run] @ ?stop # []"
    using p by (simp add: default_args_def)
  from stop_and_continue_signals [OF wf_init_store st, of "default_args ''vm''" "[]" "[?run]" ?env]
  have "(VIR_DOMAIN_SHUTDOWN = VIR_DOMAIN_SHUTDOWN \<or> VIR_DOMAIN_SHUTDOWN = VIR_DOMAIN_SHUTOFF) \<and>
      0 < period (default_args ''vm'') \<and> (\<forall>t\<in>set [?run]. polling_tick (default_args ''vm'') t) \<and>
      open_result ?env = Inr () \<and> lookupByName_result ?env = Inr () \<and>
      setMemoryStatsPeriod_result ?env = Inr () \<and> ticks ?env = [?run] @ ?stop # [] \<longrightarrow>
        snd (main (default_args ''vm'') ?env) = Returned 0 \<and>
        exit_status (snd (main (default_args ''vm'') ?env)) = Some 0"
    by (elim conjE)
  from this hyp
  have "snd (main (default_args ''vm'') ?env) = Returned 0 \<and>
        exit_status (snd (main (default_args ''vm'') ?env)) = Some 0"
    by (rule mp)
  then have "snd (main (default_args ''vm'') ?env) = Returned 0" by (rule conjunct1)
  with wf_init_store p show ?thesis by (intro conjI)
qed

section \<open>Hypervisor errors in a Running tick\<close>

lemma RunningStateHandler_handle_stats_error:
  assumes "slot_args self = Some ar" and "memoryStats_result vdom = Inl e" and "is_libvirtError e"
  shows "RunningStateHandler_handle self vdom =
           ([MemoryStatsCall] @ [Log RunningStateHandler ERROR ''failed to resize memory''], Inr 0)"
  using assms(3)
  by (simp add: RunningStateHandler_handle_def RunningStateHandler_try_stats_error [OF assms(1,2)])

lemma RunningStateHandler_handle_events:
  "set (fst (RunningStateHandler_handle self vdom)) \<subseteq>
     insert (Log RunningStateHandler ERROR ''failed to resize memory'')
       (set (fst (RunningStateHandler_try self vdom)))"
proof (cases "RunningStateHandler_try self vdom")
  case (Pair evs res)
  show ?thesis
  proof (cases res)
    case (Inl e)
    with Pair show ?thesis
      by (cases "is_libvirtError e") (auto simp: RunningStateHandler_handle_def)
  next
    case (Inr u)
    with Pair show ?thesis by (auto simp: RunningStateHandler_handle_def)
  qed
qed

lemma RunningStateHandler_try_requested:
  assumes "slot_args self = Some ar"
    and "SetMemory mem \<in> set (fst (RunningStateHandler_handle self vdom))"
  shows "RunningStateHandler_try self vdom =
           ([MemoryStatsCall, Log RunningStateHandler DEBUG debug_format,
             Log RunningStateHandler INFO ''memory resized to %.2f (%+.2fMB)'',
             SetMemory mem],
            setMemory_result vdom mem)"
proof -
  from assms(2) RunningStateHandler_handle_events [of self vdom]
  have req: "SetMemory mem \<in> set (fst (RunningStateHandler_try self vdom))" by auto
  show ?thesis
  proof (cases "memoryStats_result vdom")
    case (Inl e)
    with req RunningStateHandler_try_stats_error [OF assms(1) Inl] show ?thesis by simp
  next
    case (Inr memStats)
    obtain p m d where c: "RunningStateHandler_compute ar memStats = Inr (p, m, d)"
      by (simp add: RunningStateHandler_compute_eq)
    from req RunningStateHandler_try_stats_ok [OF assms(1) Inr c]
    show ?thesis by (simp split: if_splits)
  qed
qed

text \<open>
  Claim C7: a \<open>libvirtError\<close> raised in a Running tick, by \<open>memoryStats\<close> or by a
  \<open>setMemory\<close> call that the handler made, is caught in the handler and logged at level
  \<open>ERROR\<close>; the handler returns 0 all the same, \<open>setMemory\<close> is not called again in the
  tick (and not at all when the statistics failed), and the loop sleeps and goes on to
  the next tick.
\<close>

theorem libvirtError_absorbed:
  assumes "wf_store s" and "state_result vdom = Inr VIR_DOMAIN_RUNNING" and "is_libvirtError e"
    and "memoryStats_result vdom = Inl e \<or>
         (\<exists>mem. SetMemory mem \<in> set (fst (handle
              \<lparr>cls = RunningStateHandler, slot_state = Some VIR_DOMAIN_RUNNING,
               slot_args = Some ar\<rparr> vdom)) \<and>
            setMemory_result vdom mem = Inl e)"
  shows "\<exists>a s' evs. StateHandler_call VIR_DOMAIN_RUNNING ar s = Inr (a, s') \<and>
           heap s' ! a = \<lparr>cls = RunningStateHandler, slot_state = Some VIR_DOMAIN_RUNNING,
                          slot_args = Some ar\<rparr> \<and>
           handle (heap s' ! a) vdom =
             (evs @ [Log RunningStateHandler ERROR ''failed to resize memory''], Inr 0) \<and>
           (memoryStats_result vdom = Inl e \<longrightarrow> evs = [MemoryStatsCall]) \<and>
           length (filter is_SetMemory evs) \<le> 1 \<and>
           (0 \<le> period ar \<longrightarrow>
              main_loop ar (vdom # rest) s =
                (StateCall # (evs @ [Log RunningStateHandler ERROR ''failed to resize memory'']) @
                   Sleep (period ar) # fst (main_loop ar rest s'),
                 snd (main_loop ar rest s')))"
proof -
  let ?self = "\<lparr>cls = RunningStateHandler, slot_state = Some VIR_DOMAIN_RUNNING,
                slot_args = Some ar\<rparr>"
  have c: "registry VIR_DOMAIN_RUNNING = Some RunningStateHandler" by (simp add: registry_simps)
  from StateHandler_call_object [OF assms(1) c, of ar]
  obtain a s' where call: "StateHandler_call VIR_DOMAIN_RUNNING ar s = Inr (a, s')"
    and obj: "heap s' ! a = ?self"
    by blast
  have h: "handle ?self vdom = RunningStateHandler_handle ?self vdom"
    by (simp add: handle_Running)
  have sa: "slot_args ?self = Some ar" by simp
  have "\<exists>evs. handle ?self vdom =
             (evs @ [Log RunningStateHandler ERROR ''failed to resize memory''], Inr 0) \<and>
           (memoryStats_result vdom = Inl e \<longrightarrow> evs = [MemoryStatsCall]) \<and>
           length (filter is_SetMemory evs) \<le> 1"
  proof (cases "memoryStats_result vdom = Inl e")
    case True
    from RunningStateHandler_handle_stats_error [OF sa True assms(3)] h
    show ?thesis by simp
  next
    case False
    with assms(4) obtain mem
      where req: "SetMemory mem \<in> set (fst (handle ?self vdom))"
        and sm: "setMemory_result vdom mem = Inl e"
      by blast
    from req h have "SetMemory mem \<in> set (fst (RunningStateHandler_handle ?self vdom))" by simp
    from RunningStateHandler_try_requested [OF sa this] sm
    have "RunningStateHandler_try ?self vdom =
           ([MemoryStatsCall, Log RunningStateHandler DEBUG debug_format,
             Log RunningStateHandler INFO ''memory resized to %.2f (%+.2fMB)'',
             SetMemory mem], Inl e)"
      by simp
    with assms(3) have "RunningStateHandler_handle ?self vdom =
           ([MemoryStatsCall, Log RunningStateHandler DEBUG debug_format,
             Log RunningStateHandler INFO ''memory resized to %.2f (%+.2fMB)'',
             SetMemory mem] @ [Log RunningStateHandler ERROR ''failed to resize memory''], Inr 0)"
      by (simp add: RunningStateHandler_handle_def)
    with h False show ?thesis by simp
  qed
  then obtain evs where hv: "handle ?self vdom =
             (evs @ [Log RunningStateHandler ERROR ''failed to resize memory''], Inr 0)"
    and ev: "memoryStats_result vdom = Inl e \<longrightarrow> evs = [MemoryStatsCall]"
    and once: "length (filter is_SetMemory evs) \<le> 1"
    by (elim exE conjE)
  from hv obj have hv': "handle (heap s' ! a) vdom =
             (evs @ [Log RunningStateHandler ERROR ''failed to resize memory''], Inr 0)"
    by simp
  have loop: "0 \<le> period ar \<longrightarrow>
              main_loop ar (vdom # rest) s =
                (StateCall # (evs @ [Log RunningStateHandler ERROR ''failed to resize memory'']) @
                   Sleep (period ar) # fst (main_loop ar rest s'),
                 snd (main_loop ar rest s'))"
    using main_loop_step [OF assms(2) call hv', of rest] by simp
  have "StateHandler_call VIR_DOMAIN_RUNNING ar s = Inr (a, s') \<and>
           heap s' ! a = ?self \<and>
           handle (heap s' ! a) vdom =
             (evs @ [Log RunningStateHandler ERROR ''failed to resize memory''], Inr 0) \<and>
           (memoryStats_result vdom = Inl e \<longrightarrow> evs = [MemoryStatsCall]) \<and>
           length (filter is_SetMemory evs) \<le> 1 \<and>
           (0 \<le> period ar \<longrightarrow>
              main_loop ar (vdom # rest) s =
                (StateCall # (evs @ [Log RunningStateHandler ERROR ''failed to resize memory'']) @
                   Sleep (period ar) # fst (main_loop ar rest s'),
                 snd (main_loop ar rest s')))"
    using call obj hv' ev once loop by (intro conjI)
  then show ?thesis by (intro exI)
qed

theorem libvirtError_absorbed_witness:
  "wf_store init_store \<and> is_libvirtError (LibvirtError ''timed out'') \<and>
   SetMemory 2170880 \<in> set (fst (handle
     \<lparr>cls = RunningStateHandler, slot_state = Some VIR_DOMAIN_RUNNING,
      slot_args = Some (default_args ''vm'')\<rparr>
     \<lparr>state_result = Inr VIR_DOMAIN_RUNNING,
      memoryStats_result = Inr [''actual'' \<mapsto> 4194304, ''usable'' \<mapsto> 3072000],
      setMemory_result = \<lambda>m. Inl (LibvirtError ''timed out'')\<rparr>)) \<and>
   (\<exists>a s' evs. StateHandler_call VIR_DOMAIN_RUNNING (default_args ''vm'') init_store = Inr (a, s') \<and>
      handle (heap s' ! a)
        \<lparr>state_result = Inr VIR_DOMAIN_RUNNING,
         memoryStats_result = Inr [''actual'' \<mapsto> 4194304, ''usable'' \<mapsto> 3072000],
         setMemory_result = \<lambda>m. Inl (LibvirtError ''timed out'')\<rparr> =
        (evs @ [Log RunningStateHandler ERROR ''failed to resize memory''], Inr 0))"
proof -
  let ?self = "\<lparr>cls = RunningStateHandler, slot_state = Some VIR_DOMAIN_RUNNING,
                slot_args = Some (default_args ''vm'')\<rparr>"
  let ?stats = "[''actual'' \<mapsto> 4194304, ''usable'' \<mapsto> (3072000::int)]"
  let ?t = "\<lparr>state_result = Inr VIR_DOMAIN_RUNNING, memoryStats_result = Inr ?stats,
             setMemory_result = \<lambda>m::int. (Inl (LibvirtError ''timed out'') :: error + unit)\<rparr>"
  have st: "state_result ?t = Inr VIR_DOMAIN_RUNNING" by simp
  have e: "is_libvirtError (LibvirtError ''timed out'')" by simp
  have sa: "slot_args ?self = Some (default_args ''vm'')" and ms: "memoryStats_result ?t = Inr ?stats"
    by simp_all
  have cmp: "RunningStateHandler_compute (default_args ''vm'') ?stats = Inr (4194304, 2170880, 2023424)"
    by (simp add: RunningStateHandler_compute_eq dict_get_def default_args_def)
  have fit: "figures_fit (default_args ''vm'') ?stats"
    by (simp add: figures_fit_eq [OF cmp] dict_get_def fits_float_def)
  from RunningStateHandler_try_fit [OF sa ms cmp fit]
  have "RunningStateHandler_try ?self ?t =
          ([MemoryStatsCall, Log RunningStateHandler DEBUG debug_format,
            Log RunningStateHandler INFO ''memory resized to %.2f (%+.2fMB)'',
            SetMemory 2170880], Inl (LibvirtError ''timed out''))"
    by (simp add: default_args_def)
  then have req: "SetMemory 2170880 \<in> set (fst (handle ?self ?t))"
    by (simp add: handle_Running RunningStateHandler_handle_def)
  then have d: "memoryStats_result ?t = Inl (LibvirtError ''timed out'') \<or>
         (\<exists>mem. SetMemory mem \<in> set (fst (handle ?self ?t)) \<and>
            setMemory_result ?t mem = Inl (LibvirtError ''timed out''))"
    by auto
  from libvirtError_absorbed [OF wf_init_store st e d, of "[]"]
  obtain a s' evs
    where c: "StateHandler_call VIR_DOMAIN_RUNNING (default_args ''vm'') init_store = Inr (a, s')"
      and h: "handle (heap s' ! a) ?t =
                (evs @ [Log RunningStateHandler ERROR ''failed to resize memory''], Inr 0)"
    by (elim exE conjE)
  then have "\<exists>a s' evs. StateHandler_call VIR_DOMAIN_RUNNING (default_args ''vm'') init_store = Inr (a, s') \<and>
      handle (heap s' ! a) ?t =
        (evs @ [Log RunningStateHandler ERROR ''failed to resize memory''], Inr 0)"
    by (intro exI conjI)
  with wf_init_store e req show ?thesis by (intro conjI)
qed

section \<open>The initialiser runs on every construction\<close>

lemma wf_dispatch_all: "wf_store s \<Longrightarrow> wf_store (dispatch_all calls s)"
proof (induction calls arbitrary: s)
  case Nil
  then show ?case by simp
next
  case (Cons call calls)
  obtain st ar where call: "call = (st, ar)" by (cases call)
  show ?case
  proof (cases "registry st")
    case None
    from StateHandler_call_unregistered [OF None, of ar s] call Cons show ?thesis by simp
  next
    case (Some c)
    from StateHandler_call_object [OF Cons.prems Some, of ar]
    obtain a s' where c: "StateHandler_call st ar s = Inr (a, s')" and wf: "wf_store s'"
      by blast
    from Cons.IH [OF wf] c call show ?thesis by simp
  qed
qed

lemma StateHandler_call_fields:
  assumes "wf_store s" and "registry st = Some c" and "handlers s st = Some a"
  shows "\<exists>s'. StateHandler_call st ar s = Inr (a, s') \<and>
           slot_state (heap s' ! a) = Some st \<and> slot_args (heap s' ! a) = Some ar"
proof -
  from StateHandler_call_object [OF assms(1,2), of ar]
  obtain b s' where call: "StateHandler_call st ar s = Inr (b, s')"
    and hb: "handlers s' st = Some b"
    and obj: "heap s' ! b = \<lparr>cls = c, slot_state = Some st, slot_args = Some ar\<rparr>"
    by blast
  from StateHandler_call_keeps_handlers [OF assms(3) call] hb have "b = a" by simp
  with call obj show ?thesis by simp
qed

text \<open>
  Claim C10: constructing a handler for a state returns the cached instance, and
  \<open>__init__\<close> runs on it each time: after the call the slots of the instance hold the
  state and the arguments of this call, whatever an earlier call stored there.
\<close>

theorem init_runs_on_every_construction:
  assumes "wf_store s" and "registry st = Some c"
  shows "\<exists>a s1. StateHandler_call st ar s = Inr (a, s1) \<and>
           slot_state (heap s1 ! a) = Some st \<and> slot_args (heap s1 ! a) = Some ar \<and>
           (\<forall>calls ar'. \<exists>s2.
              StateHandler_call st ar' (dispatch_all calls s1) = Inr (a, s2) \<and>
              slot_state (heap s2 ! a) = Some st \<and> slot_args (heap s2 ! a) = Some ar')"
proof -
  from StateHandler_call_object [OF assms, of ar]
  obtain a s1 where call: "StateHandler_call st ar s = Inr (a, s1)" and wf: "wf_store s1"
    and h: "handlers s1 st = Some a"
    and obj: "heap s1 ! a = \<lparr>cls = c, slot_state = Some st, slot_args = Some ar\<rparr>"
    by blast
  have f: "slot_state (heap s1 ! a) = Some st" "slot_args (heap s1 ! a) = Some ar"
    by (simp_all add: obj)
  have again: "\<forall>calls ar'. \<exists>s2.
              StateHandler_call st ar' (dispatch_all calls s1) = Inr (a, s2) \<and>
              slot_state (heap s2 ! a) = Some st \<and> slot_args (heap s2 ! a) = Some ar'"
  proof (intro allI)
    fix calls ar'
    from wf have w: "wf_store (dispatch_all calls s1)" by (rule wf_dispatch_all)
    from h have k: "handlers (dispatch_all calls s1) st = Some a"
      by (rule dispatch_all_keeps_handlers)
    from StateHandler_call_fields [OF w assms(2) k, of ar']
    show "\<exists>s2. StateHandler_call st ar' (dispatch_all calls s1) = Inr (a, s2) \<and>
              slot_state (heap s2 ! a) = Some st \<and> slot_args (heap s2 ! a) = Some ar'" .
  qed
  have "StateHandler_call st ar s = Inr (a, s1) \<and>
           slot_state (heap s1 ! a) = Some st \<and> slot_args (heap s1 ! a) = Some ar \<and>
           (\<forall>calls ar'. \<exists>s2.
              StateHandler_call st ar' (dispatch_all calls s1) = Inr (a, s2) \<and>
              slot_state (heap s2 ! a) = Some st \<and> slot_args (heap s2 ! a) = Some ar')"
    using call f again by (intro conjI)
  then show ?thesis by (intro exI)
qed

theorem init_runs_on_every_construction_witness:
  "wf_store init_store \<and> registry VIR_DOMAIN_RUNNING = Some RunningStateHandler \<and>
   default_args ''vm'' \<noteq> (default_args ''vm'')\<lparr>free := 0\<rparr> \<and>
   (\<exists>a s1 s2.
      StateHandler_call VIR_DOMAIN_RUNNING (default_args ''vm'') init_store = Inr (a, s1) \<and>
      slot_args (heap s1 ! a) = Some (default_args ''vm'') \<and>
      StateHandler_call VIR_DOMAIN_RUNNING ((default_args ''vm'')\<lparr>free := 0\<rparr>) s1 = Inr (a, s2) \<and>
      slot_args (heap s2 ! a) = Some ((default_args ''vm'')\<lparr>free := 0\<rparr>))"
proof -
  have r: "registry VIR_DOMAIN_RUNNING = Some RunningStateHandler" by (simp add: registry_simps)
  have ne: "default_args ''vm'' \<noteq> (default_args ''vm'')\<lparr>free := 0\<rparr>"
    by (simp add: default_args_def)
  from init_runs_on_every_construction [OF wf_init_store r, of "default_args ''vm''"]
  obtain a s1
    where c: "StateHandler_call VIR_DOMAIN_RUNNING (default_args ''vm'') init_store = Inr (a, s1)"
      and f: "slot_args (heap s1 ! a) = Some (default_args ''vm'')"
      and again: "\<forall>calls ar'. \<exists>s2.
              StateHandler_call VIR_DOMAIN_RUNNING ar' (dispatch_all calls s1) = Inr (a, s2) \<and>
              slot_state (heap s2 ! a) = Some VIR_DOMAIN_RUNNING \<and> slot_args (heap s2 ! a) = Some ar'"
    by (elim exE conjE)
  from again [rule_format, of "(default_args ''vm'')\<lparr>free := 0\<rparr>" "[]"]
  obtain s2
    where c2: "StateHandler_call VIR_DOMAIN_RUNNING ((default_args ''vm'')\<lparr>free := 0\<rparr>) s1 = Inr (a, s2)"
      and f2: "slot_args (heap s2 ! a) = Some ((default_args ''vm'')\<lparr>free := 0\<rparr>)"
    by auto
  from c f c2 f2
  have "\<exists>a s1 s2.
      StateHandler_call VIR_DOMAIN_RUNNING (default_args ''vm'') init_store = Inr (a, s1) \<and>
      slot_args (heap s1 ! a) = Some (default_args ''vm'') \<and>
      StateHandler_call VIR_DOMAIN_RUNNING ((default_args ''vm'')\<lparr>free := 0\<rparr>) s1 = Inr (a, s2) \<and>
      slot_args (heap s2 ! a) = Some ((default_args ''vm'')\<lparr>free := 0\<rparr>)"
    by (intro exI conjI)
  with wf_init_store r ne show ?thesis by (intro conjI)
qed

end
